theory Spec2Isabelle
  imports Complex_Main
begin

section \<open>The glTF loader extension EXT\_property\_animation\<close>

text \<open>
  A shallow embedding of \<^verbatim>\<open>loaders/src/glTF/2.0/Extensions/EXT_property_animation.ts\<close>.
  Source names are kept; a leading underscore of the source (\<^verbatim>\<open>_isIndexed\<close>,
  \<^verbatim>\<open>_data\<close>) is written \<open>u_\<close>, because an Isabelle name starts with a letter.
  The elements of a \<^verbatim>\<open>Float32Array\<close> are a type parameter \<open>'a\<close>: the code copies
  them and never computes with them.
\<close>

subsection \<open>Exceptions\<close>

text \<open>
  \<open>Error m\<close> is \<^verbatim>\<open>throw new Error(m)\<close>, written in this file twice in
  \<^verbatim>\<open>_getAnimationObject\<close> and once in \<^verbatim>\<open>_loadAnimationSamplerAsync\<close>.
  \<open>TypeError\<close> is what JavaScript raises when a variable that a \<^verbatim>\<open>switch\<close> left
  unassigned is called. \<open>ArrayItemNotFound\<close> is the failure of \<^verbatim>\<open>ArrayItem.Get\<close>.
  \<open>Foreign x\<close> is an exception \<open>x\<close> raised inside a collaborator (a registry lookup
  function, an accessor read) and passed on unchanged.
\<close>

datatype 'x error = Error string | TypeError | ArrayItemNotFound string nat | Foreign 'x

definition NAME :: string where
  "NAME = ''EXT_property_animation''"

text \<open>The message of both \<^verbatim>\<open>throw\<close> statements of \<^verbatim>\<open>_getAnimationObject\<close>
  (the spec's \<open>InvalidTargetPath\<close>):
  \<^verbatim>\<open>`${context}: Invalid ${NAME} target path (${target})`\<close>.\<close>

definition InvalidTargetPath :: "string \<Rightarrow> string \<Rightarrow> string" where
  "InvalidTargetPath context target =
     context @ '': Invalid '' @ NAME @ '' target path ('' @ target @ '')''"

subsection \<open>Strings: \<^verbatim>\<open>split('/')\<close>, \<^verbatim>\<open>join('.')\<close>, decimal numbers\<close>

text \<open>\<^verbatim>\<open>target.split('/')\<close>: the pieces between the slashes, empty pieces included;
  the empty string splits into one empty piece.\<close>

fun split_slash :: "string \<Rightarrow> string list" where
  "split_slash [] = [[]]"
| "split_slash (c # cs) =
     (case split_slash cs of
        [] \<Rightarrow> (if c = CHR ''/'' then [[], []] else [[c]])
      | piece # pieces \<Rightarrow>
          (if c = CHR ''/'' then [] # piece # pieces else (c # piece) # pieces))"

text \<open>\<^verbatim>\<open>targetPaths.join('.')\<close>.\<close>

fun join_dot :: "string list \<Rightarrow> string" where
  "join_dot [] = []"
| "join_dot [s] = s"
| "join_dot (s # t # ts) = s @ ''.'' @ join_dot (t # ts)"

text \<open>A number inside a template literal (\<^verbatim>\<open>`channel${n}`\<close>): its decimal digits.\<close>

definition digit_char :: "nat \<Rightarrow> char" where
  "digit_char d = ''0123456789'' ! d"

fun string_of_nat :: "nat \<Rightarrow> string" where
  "string_of_nat n =
     (if n < 10 then [digit_char n] else string_of_nat (n div 10) @ [digit_char (n mod 10)])"

declare string_of_nat.simps [simp del]

subsection \<open>The registry \<^verbatim>\<open>pathProperties\<close>\<close>

text \<open>
  Modelled from the spec: the value types ("float, 2-vector, 3-vector, quaternion, 3-color,
  4-color") are the constants \<^verbatim>\<open>ANIMATIONTYPE_*\<close> of the class \<^verbatim>\<open>Animation\<close> of
  \<^verbatim>\<open>babylonjs/Animations/animation\<close>, whose declaration is not under \<^verbatim>\<open>src/\<close>. They are
  given the numbers of Babylon.js; the proofs use only that they differ.
\<close>

definition ANIMATIONTYPE_FLOAT :: nat where "ANIMATIONTYPE_FLOAT = 0"
definition ANIMATIONTYPE_VECTOR3 :: nat where "ANIMATIONTYPE_VECTOR3 = 1"
definition ANIMATIONTYPE_QUATERNION :: nat where "ANIMATIONTYPE_QUATERNION = 2"
definition ANIMATIONTYPE_MATRIX :: nat where "ANIMATIONTYPE_MATRIX = 3"
definition ANIMATIONTYPE_COLOR3 :: nat where "ANIMATIONTYPE_COLOR3 = 4"
definition ANIMATIONTYPE_VECTOR2 :: nat where "ANIMATIONTYPE_VECTOR2 = 5"
definition ANIMATIONTYPE_SIZE :: nat where "ANIMATIONTYPE_SIZE = 6"
definition ANIMATIONTYPE_COLOR4 :: nat where "ANIMATIONTYPE_COLOR4 = 7"

text \<open>
  A node of the registry is an object literal. Its marker properties are the fields of
  \<open>markers\<close> (\<open>None\<close>: the literal does not write the property); every other key of the
  literal is a child. A lookup function \<^verbatim>\<open>_getTarget(gltf, index)\<close> receives the glTF
  document and the text of the next path segment (\<open>None\<close>: \<^verbatim>\<open>undefined\<close>, there was
  no next segment); it raises \<open>Inl x\<close>, or returns a scene object \<open>Inr (Some obj)\<close>, or
  returns \<^verbatim>\<open>undefined\<close>, \<open>Inr None\<close>.
\<close>

record ('g, 'x, 'o) markers =
  u_isIndexed :: "bool option"
  u_getTarget :: "('g \<Rightarrow> string option \<Rightarrow> 'x + 'o option) option"
  u_typedKeyframeTrack :: "nat option"
  u_animationType :: "nat option"
  u_targetPath :: "string option"

definition no_markers :: "('g, 'x, 'o) markers" where
  "no_markers = \<lparr>u_isIndexed = None, u_getTarget = None, u_typedKeyframeTrack = None,
     u_animationType = None, u_targetPath = None\<rparr>"

text \<open>
  The values that \<^verbatim>\<open>pathPartNode\<close> can hold. \<open>Node\<close> is an object literal of the registry.
  The next four are what a marker property holds: \<^verbatim>\<open>true\<close>, a lookup function, a number, a
  string. \<open>Null\<close> is \<^verbatim>\<open>null\<close>, and \<open>Other v\<close> is any other value of the JavaScript runtime
  (an inherited method, a prototype object).
\<close>

datatype ('g, 'x, 'o, 'v) node =
    Node "('g, 'x, 'o) markers" "(string \<times> ('g, 'x, 'o, 'v) node) list"
  | BooleanValue bool
  | FunctionValue "'g \<Rightarrow> string option \<Rightarrow> 'x + 'o option"
  | NumberValue nat
  | StringValue string
  | Null
  | Other 'v

text \<open>Reading a marker property of a value: only a registry literal has any. (Reading a
  property of \<^verbatim>\<open>null\<close> raises; \<open>walk\<close> below tests for it first.)\<close>

fun markers_of :: "('g, 'x, 'o, 'v) node \<Rightarrow> ('g, 'x, 'o) markers" where
  "markers_of (Node m cs) = m"
| "markers_of n = no_markers"

fun is_null :: "('g, 'x, 'o, 'v) node \<Rightarrow> bool" where
  "is_null Null = True"
| "is_null n = False"

text \<open>
  The two lookup functions of the literal call \<^verbatim>\<open>ArrayItem.Get\<close> and the scene graph of
  Babylon.js, which are not under \<^verbatim>\<open>src/\<close>: they are the parameters \<open>lights_getTarget\<close>
  and \<open>materials_getTarget\<close>. The rest follows the literal line by line; the two
  entries that the source comments out are left out.
\<close>

definition pathProperties ::
  "('g \<Rightarrow> string option \<Rightarrow> 'x + 'o option) \<Rightarrow> ('g \<Rightarrow> string option \<Rightarrow> 'x + 'o option)
     \<Rightarrow> ('g, 'x, 'o, 'v) node" where
  "pathProperties lights_getTarget materials_getTarget =
   Node no_markers
   [(''extensions'', Node no_markers
      [(''KHR_lights'', Node no_markers
         [(''lights'',
            Node (no_markers\<lparr>u_isIndexed := Some True, u_getTarget := Some lights_getTarget\<rparr>)
              [(''color'', Node (no_markers\<lparr>u_typedKeyframeTrack := Some ANIMATIONTYPE_COLOR3,
                                   u_targetPath := Some ''diffuse''\<rparr>) []),
               (''intensity'', Node (no_markers\<lparr>u_typedKeyframeTrack := Some ANIMATIONTYPE_FLOAT,
                                   u_targetPath := Some ''intensity''\<rparr>) [])])])]),
    (''materials'',
      Node (no_markers\<lparr>u_isIndexed := Some True, u_getTarget := Some materials_getTarget\<rparr>)
        [(''pbrMetallicRoughness'', Node no_markers
           [(''baseColorFactor'', Node (no_markers\<lparr>u_animationType := Some ANIMATIONTYPE_COLOR4,
                                   u_targetPath := Some ''albedoColor''\<rparr>) []),
            (''metallicFactor'', Node (no_markers\<lparr>u_animationType := Some ANIMATIONTYPE_FLOAT,
                                   u_targetPath := Some ''metallic''\<rparr>) []),
            (''roughnessFactor'', Node (no_markers\<lparr>u_animationType := Some ANIMATIONTYPE_FLOAT,
                                   u_targetPath := Some ''roughness''\<rparr>) []),
            (''baseColorTexture'', Node no_markers
               [(''extensions'', Node no_markers
                  [(''KHR_texture_transform'', Node no_markers
                     [(''offset'', Node (no_markers\<lparr>u_animationType := Some ANIMATIONTYPE_VECTOR2,
                                   u_targetPath := Some ''albedoTexture.uvOffset''\<rparr>) []),
                      (''scale'', Node (no_markers\<lparr>u_animationType := Some ANIMATIONTYPE_VECTOR2,
                                   u_targetPath := Some ''albedoTexture.uvScale''\<rparr>) [])])])])]),
         (''emissiveFactor'', Node (no_markers\<lparr>u_animationType := Some ANIMATIONTYPE_COLOR3,
                                   u_targetPath := Some ''emissive''\<rparr>) [])])]"

subsection \<open>\<^verbatim>\<open>_getAnimationObject\<close>\<close>

text \<open>The child that a registry literal has under a key, and the value of a marker
  property that it writes, by the property's name.\<close>

definition child :: "('g, 'x, 'o, 'v) node \<Rightarrow> string \<Rightarrow> ('g, 'x, 'o, 'v) node option" where
  "child n key = (case n of Node m cs \<Rightarrow> map_of cs key | _ \<Rightarrow> None)"

definition marker_value :: "('g, 'x, 'o) markers \<Rightarrow> string \<Rightarrow> ('g, 'x, 'o, 'v) node option" where
  "marker_value m key =
     (if key = ''_isIndexed'' then map_option BooleanValue (u_isIndexed m)
      else if key = ''_getTarget'' then map_option FunctionValue (u_getTarget m)
      else if key = ''_typedKeyframeTrack'' then map_option NumberValue (u_typedKeyframeTrack m)
      else if key = ''_animationType'' then map_option NumberValue (u_animationType m)
      else if key = ''_targetPath'' then map_option StringValue (u_targetPath m)
      else None)"

text \<open>
  \<^verbatim>\<open>pathPartNode[pathPart]\<close>; \<open>None\<close> is \<^verbatim>\<open>undefined\<close>. JavaScript looks the name up among
  all properties of the value: on a registry literal it finds a child key and also a
  marker property. For every other name, and on every other value, the answer is the
  parameter \<open>other_props\<close>: what the runtime finds there (a property every object
  inherits, a property of a string or of a function). The four marker properties
  themselves are read from the literals alone (\<open>markers_of\<close>): it is assumed that no value
  outside the registry carries one.
\<close>

definition getProperty ::
  "(('g, 'x, 'o, 'v) node \<Rightarrow> string \<Rightarrow> ('g, 'x, 'o, 'v) node option)
     \<Rightarrow> ('g, 'x, 'o, 'v) node \<Rightarrow> string \<Rightarrow> ('g, 'x, 'o, 'v) node option" where
  "getProperty other_props n pathPart =
     (case child n pathPart of
        Some c \<Rightarrow> Some c
      | None \<Rightarrow>
          (case marker_value (markers_of n) pathPart of
             Some v \<Rightarrow> Some v
           | None \<Rightarrow> other_props n pathPart))"

record 'o IEXTPropertyAnimationTarget =
  targetPath :: string
  animationType :: nat
  object :: "'o option"

text \<open>The local variables of \<^verbatim>\<open>_getAnimationObject\<close>. \<open>object\<close> is \<open>None\<close> for
  \<^verbatim>\<open>null\<close> and for \<^verbatim>\<open>undefined\<close>, which the code does not tell apart (it tests with
  \<^verbatim>\<open>== undefined\<close> and \<^verbatim>\<open>!= undefined\<close>).\<close>

record ('g, 'x, 'o, 'v) walk_state =
  pathPartNode :: "('g, 'x, 'o, 'v) node"
  targetPaths :: "string list"
  result :: "'o IEXTPropertyAnimationTarget"

text \<open>
  What the walk does to its surroundings, in order: each read \<^verbatim>\<open>pathPartNode[pathPart]\<close>
  (the segment, and whether the read found something) and each call
  \<^verbatim>\<open>pathPartNode._getTarget(gltf, pathPart)\<close> (the segment that named the indexed node,
  the argument, the outcome).
\<close>

datatype ('x, 'o) event =
    PropertyRead string bool
  | GetTargetCall string "string option" "'x + 'o option"

fun is_GetTargetCall :: "('x, 'o) event \<Rightarrow> bool" where
  "is_GetTargetCall (GetTargetCall p i r) = True"
| "is_GetTargetCall (PropertyRead p found) = False"

text \<open>Lines 340 to 347: the node just entered adds its \<^verbatim>\<open>_targetPath\<close> and overwrites
  the animation type with its \<^verbatim>\<open>_animationType\<close>.\<close>

definition enter ::
  "('g, 'x, 'o, 'v) node \<Rightarrow> ('g, 'x, 'o, 'v) walk_state \<Rightarrow> ('g, 'x, 'o, 'v) walk_state" where
  "enter n st =
     (let st1 = (case u_targetPath (markers_of n) of
                   Some p \<Rightarrow> st\<lparr>pathPartNode := n, targetPaths := targetPaths st @ [p]\<rparr>
                 | None \<Rightarrow> st\<lparr>pathPartNode := n\<rparr>)
      in case u_animationType (markers_of n) of
           Some t \<Rightarrow> st1\<lparr>result := (result st1)\<lparr>animationType := t\<rparr>\<rparr>
         | None \<Rightarrow> st1)"

text \<open>
  The loop of lines 316 to 348 over the segments from \<^verbatim>\<open>pathIndex\<close> on. An indexed
  node takes the next segment as its index, \<^verbatim>\<open>pathParts[++pathIndex]\<close>, whatever it
  is: an empty segment, or \<^verbatim>\<open>undefined\<close> when the path has ended. Line 324 compares with
  \<^verbatim>\<open>undefined\<close> only, so \<^verbatim>\<open>null\<close> passes it and line 328 raises a \<^verbatim>\<open>TypeError\<close>.
\<close>

fun walk ::
  "(('g, 'x, 'o, 'v) node \<Rightarrow> string \<Rightarrow> ('g, 'x, 'o, 'v) node option) \<Rightarrow> 'g \<Rightarrow> string \<Rightarrow> string
     \<Rightarrow> ('g, 'x, 'o, 'v) walk_state \<Rightarrow> ('x, 'o) event list \<Rightarrow> string list
     \<Rightarrow> ('x, 'o) event list \<times> ('x error + ('g, 'x, 'o, 'v) walk_state)" where
  "walk other_props gltf context target st trace [] = (trace, Inr st)"
| "walk other_props gltf context target st trace (pathPart # rest) =
     (if pathPart = [] then walk other_props gltf context target st trace rest
      else case getProperty other_props (pathPartNode st) pathPart of
        None \<Rightarrow> (trace @ [PropertyRead pathPart False],
                   Inl (Error (InvalidTargetPath context target)))
      | Some n \<Rightarrow>
          if is_null n then (trace @ [PropertyRead pathPart True], Inl TypeError)
          else if u_isIndexed (markers_of n) = Some True then
            (let index = (case rest of [] \<Rightarrow> None | i # _ \<Rightarrow> Some i) in
             case u_getTarget (markers_of n) of
               None \<Rightarrow>
                 walk other_props gltf context target (enter n st)
                   (trace @ [PropertyRead pathPart True]) (tl rest)
             | Some f \<Rightarrow>
                 (case f gltf index of
                    Inl x \<Rightarrow>
                      (trace @ [PropertyRead pathPart True, GetTargetCall pathPart index (Inl x)],
                       Inl (Foreign x))
                  | Inr None \<Rightarrow>
                      (trace @ [PropertyRead pathPart True, GetTargetCall pathPart index (Inr None)],
                       Inl (Error (InvalidTargetPath context target)))
                  | Inr (Some obj) \<Rightarrow>
                      walk other_props gltf context target
                        (enter n (st\<lparr>result := (result st)\<lparr>object := Some obj\<rparr>\<rparr>))
                        (trace @ [PropertyRead pathPart True,
                                GetTargetCall pathPart index (Inr (Some obj))])
                        (tl rest)))
          else walk other_props gltf context target (enter n st)
                 (trace @ [PropertyRead pathPart True]) rest)"






definition getAnimationObject_traced ::
  "(('g, 'x, 'o, 'v) node \<Rightarrow> string \<Rightarrow> ('g, 'x, 'o, 'v) node option) \<Rightarrow> 'g
     \<Rightarrow> ('g, 'x, 'o, 'v) node \<Rightarrow> string \<Rightarrow> string \<Rightarrow> string
     \<Rightarrow> ('x, 'o) event list \<times> ('x error + 'o IEXTPropertyAnimationTarget)" where
  "getAnimationObject_traced other_props gltf registry context animationContext target =
     (case walk other_props gltf context target
             \<lparr>pathPartNode = registry, targetPaths = [],
              result = \<lparr>targetPath = [], animationType = 0, object = None\<rparr>\<rparr>
             [] (split_slash target) of
        (trace, Inl e) \<Rightarrow> (trace, Inl e)
      | (trace, Inr st) \<Rightarrow> (trace, Inr ((result st)\<lparr>targetPath := join_dot (targetPaths st)\<rparr>)))"

text \<open>\<^verbatim>\<open>_getAnimationObject(context, animationContext, target)\<close>; \<open>registry\<close> is
  \<^verbatim>\<open>this.pathProperties\<close> and \<open>gltf\<close> is \<^verbatim>\<open>this._loader.gltf\<close>.\<close>

definition u_getAnimationObject ::
  "(('g, 'x, 'o, 'v) node \<Rightarrow> string \<Rightarrow> ('g, 'x, 'o, 'v) node option) \<Rightarrow> 'g
     \<Rightarrow> ('g, 'x, 'o, 'v) node \<Rightarrow> string \<Rightarrow> string \<Rightarrow> string
     \<Rightarrow> 'x error + 'o IEXTPropertyAnimationTarget" where
  "u_getAnimationObject other_props gltf registry context animationContext target =
     snd (getAnimationObject_traced other_props gltf registry context animationContext target)"

subsection \<open>\<^verbatim>\<open>_loadAnimationSamplerAsync\<close>\<close>

text \<open>Modelled from the spec: "interpolation (one of STEP, LINEAR, CUBICSPLINE)". The
  values of \<^verbatim>\<open>AnimationSamplerInterpolation\<close> are declared in the package
  \<^verbatim>\<open>babylonjs-gltf2interface\<close>, which is not under \<^verbatim>\<open>src/\<close>; they are the strings of the
  glTF format.\<close>

definition STEP :: string where "STEP = ''STEP''"
definition LINEAR :: string where "LINEAR = ''LINEAR''"
definition CUBICSPLINE :: string where "CUBICSPLINE = ''CUBICSPLINE''"

text \<open>The field \<^verbatim>\<open>output\<close> is written \<open>output'\<close>: the plain word is reserved in Isabelle.\<close>

record 'a IEXTPropertyAnimationSamplerData =
  input :: "'a list"
  interpolation :: string
  output' :: "'a list"

text \<open>
  A promise is an object with an identity (\<open>promise_id\<close>: the number of promises made
  before it) and the outcome it settles to: rejected with \<open>Inl x\<close> or fulfilled with
  \<open>Inr data\<close>. Whether it has settled yet is not part of the model, because no line of the
  source asks.
\<close>

record ('x, 'a) promise =
  promise_id :: nat
  outcome :: "'x + 'a IEXTPropertyAnimationSamplerData"

text \<open>\<^verbatim>\<open>IAnimationSampler\<close>: the indices of its two accessors, its interpolation
  (\<open>None\<close>: the property is absent) and the cache \<^verbatim>\<open>_data\<close>.\<close>

record ('x, 'a) IAnimationSampler =
  sampler_input :: nat
  sampler_interpolation :: "string option"
  sampler_output :: nat
  u_data :: "('x, 'a) promise option"

text \<open>
  What the function uses of \<^verbatim>\<open>this._loader\<close>. Entry \<open>i\<close> of \<open>accessors\<close> is accessor
  \<open>i\<close> of \<^verbatim>\<open>gltf.accessors\<close>, given by what \<^verbatim>\<open>_loadFloatAccessorAsync\<close> delivers for
  it: the floats, or a rejection \<open>Inl (x, t)\<close> with the reason \<open>x\<close> at the time \<open>t\<close>.
  \<open>accessorLoads\<close> lists the calls of \<^verbatim>\<open>_loadFloatAccessorAsync\<close> made so far, by accessor
  index.
\<close>

record ('x, 'a) loader =
  accessors :: "(('x \<times> nat) + 'a list) list"
  accessorLoads :: "nat list"
  promisesCreated :: nat

text \<open>Modelled from the spec: "\<open>getAccessor(index) -> AccessorRef\<close>". It is
  \<^verbatim>\<open>ArrayItem.Get(context, array, index)\<close> of \<^verbatim>\<open>glTFLoader.ts\<close>, which is not under
  \<^verbatim>\<open>src/\<close>: the element at the index, or an exception when there is none.\<close>

definition ArrayItem_Get :: "string \<Rightarrow> 'b list \<Rightarrow> nat \<Rightarrow> 'x error + 'b" where
  "ArrayItem_Get context array i =
     (if i < length array then Inr (array ! i) else Inl (ArrayItemNotFound context i))"

text \<open>The message of line 210 (the spec's \<open>MalformedAnimation\<close>):
  \<^verbatim>\<open>`${context}/interpolation: Invalid value (${sampler.interpolation})`\<close>.\<close>

definition MalformedAnimation :: "string \<Rightarrow> string \<Rightarrow> string" where
  "MalformedAnimation context v = context @ ''/interpolation: Invalid value ('' @ v @ '')''"

text \<open>\<^verbatim>\<open>sampler.interpolation || AnimationSamplerInterpolation.LINEAR\<close>: the operator
  \<^verbatim>\<open>||\<close> takes its right side when the left is absent and also when it is the empty
  string.\<close>

definition interpolation_or_LINEAR :: "string option \<Rightarrow> string" where
  "interpolation_or_LINEAR v = (case v of None \<Rightarrow> LINEAR | Some s \<Rightarrow> if s = [] then LINEAR else s)"

text \<open>
  \<^verbatim>\<open>Promise.all([...]).then(...)\<close> of lines 216 to 225: fulfilled with the record of line
  220 when both reads are fulfilled; rejected when a read is rejected, with the reason of
  the read that is rejected first when both are (the input read, named first in the
  array, when the times are equal).
\<close>

definition sampler_outcome ::
  "string \<Rightarrow> ('x \<times> nat) + 'a list \<Rightarrow> ('x \<times> nat) + 'a list
     \<Rightarrow> 'x + 'a IEXTPropertyAnimationSamplerData" where
  "sampler_outcome interp inputRead outputRead =
     (case inputRead of
        Inl (x, t) \<Rightarrow>
          (case outputRead of
             Inl (y, u) \<Rightarrow> if u < t then Inl y else Inl x
           | Inr outputData \<Rightarrow> Inl x)
      | Inr inputData \<Rightarrow>
          (case outputRead of
             Inl (y, u) \<Rightarrow> Inl y
           | Inr outputData \<Rightarrow>
               Inr \<lparr>input = inputData, interpolation = interp, output' = outputData\<rparr>))"

text \<open>The function returns its result, the sampler (whose \<^verbatim>\<open>_data\<close> it may have set)
  and the loader.\<close>

definition u_loadAnimationSamplerAsync ::
  "string \<Rightarrow> ('x, 'a) IAnimationSampler \<Rightarrow> ('x, 'a) loader
     \<Rightarrow> ('x error + ('x, 'a) promise) \<times> ('x, 'a) IAnimationSampler \<times> ('x, 'a) loader" where
  "u_loadAnimationSamplerAsync context sampler ld =
     (case u_data sampler of
        Some p \<Rightarrow> (Inr p, sampler, ld)
      | None \<Rightarrow>
          (let interp = interpolation_or_LINEAR (sampler_interpolation sampler) in
           if interp = STEP \<or> interp = LINEAR \<or> interp = CUBICSPLINE then
             (case ArrayItem_Get (context @ ''/input'') (accessors ld) (sampler_input sampler) of
                Inl e \<Rightarrow> (Inl e, sampler, ld)
              | Inr inputAccessor \<Rightarrow>
                  (case ArrayItem_Get (context @ ''/output'') (accessors ld) (sampler_output sampler) of
                     Inl e \<Rightarrow> (Inl e, sampler, ld)
                   | Inr outputAccessor \<Rightarrow>
                       (let p = \<lparr>promise_id = promisesCreated ld,
                                 outcome = sampler_outcome interp inputAccessor outputAccessor\<rparr>
                        in (Inr p, sampler\<lparr>u_data := Some p\<rparr>,
                            ld\<lparr>accessorLoads :=
                                  accessorLoads ld @ [sampler_input sampler, sampler_output sampler],
                               promisesCreated := Suc (promisesCreated ld)\<rparr>))))
           else (Inl (Error (MalformedAnimation context
                        (case sampler_interpolation sampler of Some s \<Rightarrow> s | None \<Rightarrow> ''undefined''))),
                 sampler, ld)))"

text \<open>Several calls for one sampler, one after the other (one per channel that refers to
  it), each with its own context string.\<close>

fun decode_each ::
  "string list \<Rightarrow> ('x, 'a) IAnimationSampler \<Rightarrow> ('x, 'a) loader
     \<Rightarrow> ('x error + ('x, 'a) promise) list \<times> ('x, 'a) IAnimationSampler \<times> ('x, 'a) loader" where
  "decode_each [] sampler ld = ([], sampler, ld)"
| "decode_each (context # contexts) sampler ld =
     (case u_loadAnimationSamplerAsync context sampler ld of
        (r, sampler1, ld1) \<Rightarrow>
          (case decode_each contexts sampler1 ld1 of
             (rs, sampler2, ld2) \<Rightarrow> (r # rs, sampler2, ld2)))"

subsection \<open>Typed values and keys\<close>

text \<open>\<^verbatim>\<open>array[i]\<close> on a \<^verbatim>\<open>Float32Array\<close>: \<open>None\<close> is \<^verbatim>\<open>undefined\<close>, the value of a read
  past the end.\<close>

definition float_at :: "'a list \<Rightarrow> nat \<Rightarrow> 'a option" where
  "float_at array i = (if i < length array then Some (array ! i) else None)"

datatype 'a animation_value =
    Number "'a option"
  | Vector2 "'a option" "'a option"
  | Vector3 "'a option" "'a option" "'a option"
  | Quaternion "'a option" "'a option" "'a option" "'a option"
  | Color3 "'a option" "'a option" "'a option"

text \<open>
  Modelled from the spec: "vector/quaternion/color construction from a contiguous float
  run". These are \<^verbatim>\<open>FromArray(array, offset)\<close> of the classes of
  \<^verbatim>\<open>babylonjs/Maths/math\<close>, which is not under \<^verbatim>\<open>src/\<close>.
\<close>

definition Vector2_FromArray :: "'a list \<Rightarrow> nat \<Rightarrow> 'a animation_value" where
  "Vector2_FromArray array offset = Vector2 (float_at array offset) (float_at array (offset + 1))"

definition Vector3_FromArray :: "'a list \<Rightarrow> nat \<Rightarrow> 'a animation_value" where
  "Vector3_FromArray array offset =
     Vector3 (float_at array offset) (float_at array (offset + 1)) (float_at array (offset + 2))"

definition Quaternion_FromArray :: "'a list \<Rightarrow> nat \<Rightarrow> 'a animation_value" where
  "Quaternion_FromArray array offset =
     Quaternion (float_at array offset) (float_at array (offset + 1)) (float_at array (offset + 2))
       (float_at array (offset + 3))"

definition Color3_FromArray :: "'a list \<Rightarrow> nat \<Rightarrow> 'a animation_value" where
  "Color3_FromArray array offset =
     Color3 (float_at array offset) (float_at array (offset + 1)) (float_at array (offset + 2))"

text \<open>The enumeration \<^verbatim>\<open>AnimationKeyInterpolation\<close> of
  \<^verbatim>\<open>babylonjs/Animations/animationKey\<close> is not under \<^verbatim>\<open>src/\<close>. The source uses its value
  \<^verbatim>\<open>STEP\<close> only, and nothing below depends on what that value is.\<close>

datatype AnimationKeyInterpolation = AnimationKeyInterpolation_STEP

text \<open>\<^verbatim>\<open>IAnimationKey\<close>, as the object literals of lines 136 to 156 fill it; \<open>None\<close> in an
  optional field: the object has no such property.\<close>

record 'a IAnimationKey =
  frame :: "'a option"
  inTangent :: "'a animation_value option"
  key_value :: "'a animation_value"
  outTangent :: "'a animation_value option"
  key_interpolation :: "AnimationKeyInterpolation option"

subsection \<open>The callback of \<^verbatim>\<open>_loadAnimationChannelAsync\<close>\<close>

text \<open>
  The variable \<^verbatim>\<open>getNextOutputValue\<close> after the \<^verbatim>\<open>switch\<close> of lines 84 to 131. Each
  closure reads at \<^verbatim>\<open>outputBufferOffset\<close> and moves it: in the model it takes the
  offset and returns the value with the new offset. \<open>None\<close>: no \<^verbatim>\<open>case\<close> matched and
  the variable is unassigned.
\<close>

definition getNextOutputValue ::
  "nat \<Rightarrow> 'a list \<Rightarrow> (nat \<Rightarrow> 'a animation_value \<times> nat) option" where
  "getNextOutputValue animType out =
     (if animType = ANIMATIONTYPE_VECTOR2 then
        Some (\<lambda>outputBufferOffset. (Vector2_FromArray out outputBufferOffset, outputBufferOffset + 2))
      else if animType = ANIMATIONTYPE_VECTOR3 then
        Some (\<lambda>outputBufferOffset. (Vector3_FromArray out outputBufferOffset, outputBufferOffset + 3))
      else if animType = ANIMATIONTYPE_QUATERNION then
        Some (\<lambda>outputBufferOffset. (Quaternion_FromArray out outputBufferOffset, outputBufferOffset + 4))
      else if animType = ANIMATIONTYPE_COLOR3 then
        Some (\<lambda>outputBufferOffset. (Color3_FromArray out outputBufferOffset, outputBufferOffset + 3))
      else if animType = ANIMATIONTYPE_COLOR4 then
        Some (\<lambda>outputBufferOffset. (Color3_FromArray out outputBufferOffset, outputBufferOffset + 4))
      else if animType = ANIMATIONTYPE_FLOAT then
        Some (\<lambda>outputBufferOffset. (Number (float_at out outputBufferOffset), outputBufferOffset + 1))
      else None)"

text \<open>The closure assigned in lines 176 to 180, for the alpha track.\<close>

definition getNextOutputValue_alpha :: "'a list \<Rightarrow> nat \<Rightarrow> 'a animation_value \<times> nat" where
  "getNextOutputValue_alpha out outputBufferOffset =
     (Number (float_at out outputBufferOffset), outputBufferOffset + 4)"

text \<open>Calling the variable: a \<^verbatim>\<open>TypeError\<close> when it is unassigned.\<close>

definition call_getNextOutputValue ::
  "(nat \<Rightarrow> 'a animation_value \<times> nat) option \<Rightarrow> nat \<Rightarrow> 'x error + 'a animation_value \<times> nat" where
  "call_getNextOutputValue g outputBufferOffset =
     (case g of None \<Rightarrow> Inl TypeError | Some f \<Rightarrow> Inr (f outputBufferOffset))"

text \<open>
  The variable \<^verbatim>\<open>getNextKey\<close> after the \<^verbatim>\<open>switch\<close> of lines 134 to 159. Its closures
  call whatever \<^verbatim>\<open>getNextOutputValue\<close> holds when they run, so that variable is an
  argument. The properties of an object literal are evaluated in the order written:
  \<^verbatim>\<open>frame\<close>, then \<^verbatim>\<open>inTangent\<close>, \<^verbatim>\<open>value\<close>, \<^verbatim>\<open>outTangent\<close>.
\<close>

definition getNextKey ::
  "string \<Rightarrow> 'a list
     \<Rightarrow> ((nat \<Rightarrow> 'a animation_value \<times> nat) option \<Rightarrow> nat \<Rightarrow> nat
          \<Rightarrow> 'x error + 'a IAnimationKey \<times> nat) option" where
  "getNextKey interp inp =
     (if interp = STEP then
        Some (\<lambda>g frameIndex off.
          case call_getNextOutputValue g off of
            Inl e \<Rightarrow> Inl e
          | Inr (v, off1) \<Rightarrow>
              Inr (\<lparr>frame = float_at inp frameIndex, inTangent = None, key_value = v, outTangent = None,
                    key_interpolation = Some AnimationKeyInterpolation_STEP\<rparr>, off1))
      else if interp = LINEAR then
        Some (\<lambda>g frameIndex off.
          case call_getNextOutputValue g off of
            Inl e \<Rightarrow> Inl e
          | Inr (v, off1) \<Rightarrow>
              Inr (\<lparr>frame = float_at inp frameIndex, inTangent = None, key_value = v, outTangent = None,
                    key_interpolation = None\<rparr>, off1))
      else if interp = CUBICSPLINE then
        Some (\<lambda>g frameIndex off.
          case call_getNextOutputValue g off of
            Inl e \<Rightarrow> Inl e
          | Inr (tin, off1) \<Rightarrow>
              (case call_getNextOutputValue g off1 of
                 Inl e \<Rightarrow> Inl e
               | Inr (v, off2) \<Rightarrow>
                   (case call_getNextOutputValue g off2 of
                      Inl e \<Rightarrow> Inl e
                    | Inr (tout, off3) \<Rightarrow>
                        Inr (\<lparr>frame = float_at inp frameIndex, inTangent = Some tin, key_value = v,
                              outTangent = Some tout, key_interpolation = None\<rparr>, off3))))
      else None)"

text \<open>
  The loops of lines 161 to 164 and 181 to 184, from \<^verbatim>\<open>frameIndex\<close> on. The source fills
  \<^verbatim>\<open>keys[frameIndex]\<close> of a new array for \<^verbatim>\<open>frameIndex = 0, 1, ...\<close>; the model appends.
  The result is the array and the final \<^verbatim>\<open>outputBufferOffset\<close>.
\<close>

function build_keys ::
  "((nat \<Rightarrow> 'a animation_value \<times> nat) option \<Rightarrow> nat \<Rightarrow> nat
       \<Rightarrow> 'x error + 'a IAnimationKey \<times> nat) option
     \<Rightarrow> (nat \<Rightarrow> 'a animation_value \<times> nat) option \<Rightarrow> nat \<Rightarrow> nat \<Rightarrow> nat
     \<Rightarrow> 'a IAnimationKey list \<Rightarrow> 'x error + 'a IAnimationKey list \<times> nat" where
  "build_keys nextKey g n frameIndex off keys =
     (if frameIndex < n then
        (case nextKey of
           None \<Rightarrow> Inl TypeError
         | Some k \<Rightarrow>
             (case k g frameIndex off of
                Inl e \<Rightarrow> Inl e
              | Inr (key, off1) \<Rightarrow> build_keys nextKey g n (Suc frameIndex) off1 (keys @ [key])))
      else Inr (keys, off))"
  by pat_completeness auto
termination
  by (relation "measure (\<lambda>(nextKey, g, n, frameIndex, off, keys). n - frameIndex)") auto

declare build_keys.simps [simp del]

text \<open>Modelled from the spec: the track attach is "append-only (adding a targeted
  animation to a group)". The classes \<^verbatim>\<open>Animation\<close> (constructor arguments and
  \<^verbatim>\<open>setKeys\<close>) and \<^verbatim>\<open>AnimationGroup\<close> (\<^verbatim>\<open>name\<close>, \<^verbatim>\<open>targetedAnimations\<close>,
  \<^verbatim>\<open>addTargetedAnimation\<close>) are not under \<^verbatim>\<open>src/\<close>; they are modelled as far as the
  source uses them.\<close>

record 'a Animation =
  name :: string
  targetProperty :: string
  framePerSecond :: nat
  dataType :: nat
  keys :: "'a IAnimationKey list"

record ('a, 'o) AnimationGroup =
  group_name :: string
  targetedAnimations :: "('a Animation \<times> 'o) list"

definition addTargetedAnimation ::
  "'a Animation \<Rightarrow> 'o \<Rightarrow> ('a, 'o) AnimationGroup \<Rightarrow> ('a, 'o) AnimationGroup" where
  "addTargetedAnimation animation obj grp =
     grp\<lparr>targetedAnimations := targetedAnimations grp @ [(animation, obj)]\<rparr>"

text \<open>Lines 170 to 172 and 190 to 192.\<close>

definition attach ::
  "'o option \<Rightarrow> 'a Animation \<Rightarrow> ('a, 'o) AnimationGroup \<Rightarrow> ('a, 'o) AnimationGroup" where
  "attach obj animation grp =
     (case obj of Some ob \<Rightarrow> addTargetedAnimation animation ob grp | None \<Rightarrow> grp)"

text \<open>The template of lines 166 and 186, up to the optional suffix.\<close>

definition animationName :: "('a, 'o) AnimationGroup \<Rightarrow> string" where
  "animationName grp =
     group_name grp @ ''_'' @ NAME @ ''_channel''
       @ string_of_nat (length (targetedAnimations grp))"

text \<open>The tracks one callback builds; the source keeps them in local variables.\<close>

record 'a built_tracks =
  babylonAnimation :: "'a Animation"
  alphaBabylonAnimation :: "'a Animation option"

text \<open>
  Lines 82 to 193: what the callback does once the target is resolved. It returns the
  group \<open>grp\<close> as it leaves it and the tracks it built, or the exception it raised.
\<close>

definition channel_tracks ::
  "'o IEXTPropertyAnimationTarget \<Rightarrow> 'a IEXTPropertyAnimationSamplerData \<Rightarrow> ('a, 'o) AnimationGroup
     \<Rightarrow> ('a, 'o) AnimationGroup \<times> ('x error + 'a built_tracks)" where
  "channel_tracks tgt data grp =
     (let nextKey = getNextKey (interpolation data) (input data) in
      case build_keys nextKey (getNextOutputValue (animationType tgt) (output' data))
             (length (input data)) 0 0 [] of
        Inl e \<Rightarrow> (grp, Inl e)
      | Inr (ks, off) \<Rightarrow>
          (let babylonAnim = \<lparr>name = animationName grp, targetProperty = targetPath tgt,
                               framePerSecond = 1, dataType = animationType tgt, keys = ks\<rparr>;
               grp1 = attach (object tgt) babylonAnim grp
           in if animationType tgt = ANIMATIONTYPE_COLOR4 then
                (case build_keys nextKey (Some (getNextOutputValue_alpha (output' data)))
                        (length (input data)) 0 3 [] of
                   Inl e \<Rightarrow> (grp1, Inl e)
                 | Inr (alphaKeys, off1) \<Rightarrow>
                     (let alphaAnim = \<lparr>name = animationName grp1 @ ''_alpha'',
                                        targetProperty = ''alpha'', framePerSecond = 1,
                                        dataType = ANIMATIONTYPE_FLOAT, keys = alphaKeys\<rparr>
                      in (attach (object tgt) alphaAnim grp1,
                          Inr \<lparr>babylonAnimation = babylonAnim,
                               alphaBabylonAnimation = Some alphaAnim\<rparr>)))
              else (grp1, Inr \<lparr>babylonAnimation = babylonAnim, alphaBabylonAnimation = None\<rparr>)))"

record IEXTPropertyAnimationChannel =
  channel_sampler :: nat
  channel_target :: string

text \<open>The arrow function of lines 79 to 194, called with the decoded data.\<close>

definition on_sampler_data ::
  "(('g, 'x, 'o, 'v) node \<Rightarrow> string \<Rightarrow> ('g, 'x, 'o, 'v) node option) \<Rightarrow> 'g
     \<Rightarrow> ('g, 'x, 'o, 'v) node \<Rightarrow> string \<Rightarrow> string \<Rightarrow> IEXTPropertyAnimationChannel
     \<Rightarrow> 'a IEXTPropertyAnimationSamplerData \<Rightarrow> ('a, 'o) AnimationGroup
     \<Rightarrow> ('a, 'o) AnimationGroup \<times> ('x error + 'a built_tracks)" where
  "on_sampler_data other_props gltf registry context animationContext channel data grp =
     (case u_getAnimationObject other_props gltf registry context animationContext (channel_target channel) of
        Inl e \<Rightarrow> (grp, Inl e)
      | Inr tgt \<Rightarrow> channel_tracks tgt data grp)"

text \<open>
  The callbacks of the channels of one animation run one after the other on the group
  they share (lines 65 to 69), in the order in which their promises are fulfilled; a
  callback that raises leaves the group to the next one as it is then.
\<close>

fun run_callbacks ::
  "(('g, 'x, 'o, 'v) node \<Rightarrow> string \<Rightarrow> ('g, 'x, 'o, 'v) node option) \<Rightarrow> 'g
     \<Rightarrow> ('g, 'x, 'o, 'v) node \<Rightarrow> string
     \<Rightarrow> (string \<times> IEXTPropertyAnimationChannel \<times> 'a IEXTPropertyAnimationSamplerData) list
     \<Rightarrow> ('a, 'o) AnimationGroup \<Rightarrow> ('a, 'o) AnimationGroup" where
  "run_callbacks other_props gltf registry animationContext [] grp = grp"
| "run_callbacks other_props gltf registry animationContext ((context, channel, data) # rest) grp =
     run_callbacks other_props gltf registry animationContext rest
       (fst (on_sampler_data other_props gltf registry context animationContext channel data grp
               :: ('a, 'o) AnimationGroup \<times> ('x error + 'a built_tracks)))"

text \<open>
  \<^verbatim>\<open>_loadAnimationChannelAsync\<close> for one channel, from the call to the end of its
  callback: lines 78 and 79, then the callback when the promise is fulfilled. \<open>samplers\<close> is
  \<^verbatim>\<open>animation.samplers\<close>.
\<close>

definition u_loadAnimationChannelAsync ::
  "(('g, 'x, 'o, 'v) node \<Rightarrow> string \<Rightarrow> ('g, 'x, 'o, 'v) node option) \<Rightarrow> 'g
     \<Rightarrow> ('g, 'x, 'o, 'v) node \<Rightarrow> string \<Rightarrow> string \<Rightarrow> IEXTPropertyAnimationChannel
     \<Rightarrow> ('x, 'a) IAnimationSampler list \<Rightarrow> ('x, 'a) loader \<Rightarrow> ('a, 'o) AnimationGroup
     \<Rightarrow> ('x error + 'a built_tracks) \<times> ('x, 'a) IAnimationSampler list \<times> ('x, 'a) loader
          \<times> ('a, 'o) AnimationGroup" where
  "u_loadAnimationChannelAsync other_props gltf registry context animationContext channel
       samplers ld grp =
     (case ArrayItem_Get (context @ ''/sampler'') samplers (channel_sampler channel) of
        Inl e \<Rightarrow> (Inl e, samplers, ld, grp)
      | Inr smp \<Rightarrow>
          (case u_loadAnimationSamplerAsync
                  (animationContext @ ''/samplers/'' @ string_of_nat (channel_sampler channel)) smp ld of
             (Inl e, smp1, ld1) \<Rightarrow> (Inl e, samplers[channel_sampler channel := smp1], ld1, grp)
           | (Inr p, smp1, ld1) \<Rightarrow>
               (case outcome p of
                  Inl x \<Rightarrow> (Inl (Foreign x), samplers[channel_sampler channel := smp1], ld1, grp)
                | Inr data \<Rightarrow>
                    (case on_sampler_data other_props gltf registry context animationContext
                            channel data grp of
                       (grp1, r) \<Rightarrow> (r, samplers[channel_sampler channel := smp1], ld1, grp1)))))"

subsection \<open>The spec's table of sizes\<close>



subsection \<open>Vocabulary of the properties\<close>

text \<open>All keys of the tracks one callback built: those of the primary track, then those
  of the alpha track.\<close>

definition built_keys :: "'a built_tracks \<Rightarrow> 'a IAnimationKey list" where
  "built_keys tracks =
     keys (babylonAnimation tracks)
       @ (case alphaBabylonAnimation tracks of None \<Rightarrow> [] | Some alpha \<Rightarrow> keys alpha)"

text \<open>
  The names of the tracks attached to \<open>grp\<close> since it was \<open>grp0\<close> follow their positions:
  the track at position \<open>k\<close> is named with the counter \<open>k\<close>, with or without the suffix.
\<close>

definition names_follow_positions ::
  "('a, 'o) AnimationGroup \<Rightarrow> ('a, 'o) AnimationGroup \<Rightarrow> bool" where
  "names_follow_positions grp0 grp =
     (group_name grp = group_name grp0
      \<and> length (targetedAnimations grp0) \<le> length (targetedAnimations grp)
      \<and> (\<forall>k. length (targetedAnimations grp0) \<le> k \<and> k < length (targetedAnimations grp) \<longrightarrow>
             name (fst (targetedAnimations grp ! k))
               = group_name grp0 @ ''_'' @ NAME @ ''_channel'' @ string_of_nat k
           \<or> name (fst (targetedAnimations grp ! k))
               = group_name grp0 @ ''_'' @ NAME @ ''_channel'' @ string_of_nat k @ ''_alpha''))"

text \<open>
  A small scene for the examples: no light is bound to any index, and material \<^verbatim>\<open>0\<close> is
  the scene object 5; for every other index the lookup of materials raises, as
  \<^verbatim>\<open>ArrayItem.Get\<close> does for an index that is not in the array. The examples pass
  \<open>\<lambda>n p. None\<close> for \<open>other_props\<close>: the segments they use beside the keys of the literal
  (\<^verbatim>\<open>0\<close>, \<^verbatim>\<open>3\<close>, \<^verbatim>\<open>doesNotExist\<close>) name no property that a JavaScript object inherits.
\<close>

definition example_registry :: "(unit, unit, nat, unit) node" where
  "example_registry =
     pathProperties (\<lambda>gltf index. Inr None)
       (\<lambda>gltf index. if index = Some ''0'' then Inr (Some 5) else Inl ())"

section \<open>Properties\<close>

lemmas ANIMATIONTYPE_defs =
  ANIMATIONTYPE_FLOAT_def ANIMATIONTYPE_VECTOR3_def ANIMATIONTYPE_QUATERNION_def
  ANIMATIONTYPE_MATRIX_def ANIMATIONTYPE_COLOR3_def ANIMATIONTYPE_VECTOR2_def
  ANIMATIONTYPE_SIZE_def ANIMATIONTYPE_COLOR4_def

lemmas registry_defs =
  getAnimationObject_traced_def pathProperties_def getProperty_def child_def marker_value_def
  enter_def no_markers_def

subsection \<open>Path resolution\<close>

lemma split_slash_not_Nil: "split_slash s \<noteq> []"
  by (cases s) (auto split: list.splits)

text \<open>
  C7: resolving \<^verbatim>\<open>"materials/0/pbrMetallicRoughness/baseColorFactor"\<close> against the
  registry, when the lookup function of the \<^verbatim>\<open>materials\<close> node finds an object for the
  segment \<^verbatim>\<open>0\<close>, yields the descriptor with target path \<^verbatim>\<open>albedoColor\<close>, the
  4-component colour type and that object; and the calls of lookup functions during the
  walk are exactly one: the function of \<^verbatim>\<open>materials\<close>, with the index segment \<^verbatim>\<open>0\<close>.
\<close>

theorem resolve_baseColorFactor:
  assumes "materials_getTarget gltf (Some ''0'') = Inr (Some obj)"
  shows "u_getAnimationObject other_props gltf (pathProperties lights_getTarget materials_getTarget)
           context animationContext ''materials/0/pbrMetallicRoughness/baseColorFactor''
         = Inr \<lparr>targetPath = ''albedoColor'', animationType = ANIMATIONTYPE_COLOR4, object = Some obj\<rparr>
       \<and> filter is_GetTargetCall
           (fst (getAnimationObject_traced other_props gltf
                   (pathProperties lights_getTarget materials_getTarget)
                   context animationContext ''materials/0/pbrMetallicRoughness/baseColorFactor''))
         = [GetTargetCall ''materials'' (Some ''0'') (Inr (Some obj))]"
  using assms by (simp add: u_getAnimationObject_def registry_defs)

theorem resolve_baseColorFactor_witness:
  "u_getAnimationObject (\<lambda>n p. None) ()
      (pathProperties (\<lambda>g i. Inr None)
         (\<lambda>g i. if i = Some ''0'' then Inr (Some (5::nat)) else Inl ())
       :: (unit, unit, nat, unit) node)
      ''/channels/0'' ''/animations/0'' ''materials/0/pbrMetallicRoughness/baseColorFactor''
     = Inr \<lparr>targetPath = ''albedoColor'', animationType = ANIMATIONTYPE_COLOR4, object = Some 5\<rparr>
   \<and> filter is_GetTargetCall
       (fst (getAnimationObject_traced (\<lambda>n p. None) ()
          (pathProperties (\<lambda>g i. Inr None)
             (\<lambda>g i. if i = Some ''0'' then Inr (Some (5::nat)) else Inl ())
           :: (unit, unit, nat, unit) node)
          ''/channels/0'' ''/animations/0'' ''materials/0/pbrMetallicRoughness/baseColorFactor''))
     = [GetTargetCall ''materials'' (Some ''0'') (Inr (Some 5))]"
  using resolve_baseColorFactor
    [of "\<lambda>g i. if i = Some ''0'' then Inr (Some (5::nat)) else Inl ()" "()" 5]
  by simp









text \<open>
  C8 does not hold of the code: line 329 takes the segment after an indexed node as the
  index without the test for an empty segment that line 318 makes. With a doubled slash
  after \<^verbatim>\<open>materials\<close> the lookup function is called with the empty string, and whatever
  it answers, the walk fails: the segment \<^verbatim>\<open>0\<close> is then read as a child of the materials
  node. The same path with single slashes resolves.
\<close>

theorem doubled_slash_after_index:
  "u_getAnimationObject (\<lambda>n p. None) ()
      (pathProperties (\<lambda>g i. Inr None)
         (\<lambda>g i. if i = Some ''0'' then Inr (Some (5::nat)) else Inl ())
       :: (unit, unit, nat, unit) node)
      ''/channels/0'' ''/animations/0'' ''materials/0/pbrMetallicRoughness/baseColorFactor''
     = Inr \<lparr>targetPath = ''albedoColor'', animationType = ANIMATIONTYPE_COLOR4, object = Some 5\<rparr>
   \<and> getAnimationObject_traced (\<lambda>n p. None) ()
      (pathProperties (\<lambda>g i. Inr None)
         (\<lambda>g i. if i = Some ''0'' then Inr (Some (5::nat)) else Inl ())
       :: (unit, unit, nat, unit) node)
      ''/channels/0'' ''/animations/0'' ''materials//0/pbrMetallicRoughness/baseColorFactor''
     = ([PropertyRead ''materials'' True, GetTargetCall ''materials'' (Some []) (Inl ())],
        Inl (Foreign ()))
   \<and> (\<forall>lights_getTarget materials_getTarget gltf.
        isl (u_getAnimationObject (\<lambda>n p. None) (gltf :: unit)
               (pathProperties lights_getTarget materials_getTarget :: (unit, unit, nat, unit) node)
               ''/channels/0'' ''/animations/0''
               ''materials//0/pbrMetallicRoughness/baseColorFactor''))"
  by (auto simp: u_getAnimationObject_def registry_defs Let_def split: sum.splits option.splits)


subsection \<open>Decoding a sampler\<close>

lemma interp_distinct [simp]:
  "STEP \<noteq> LINEAR" "LINEAR \<noteq> STEP" "STEP \<noteq> CUBICSPLINE" "CUBICSPLINE \<noteq> STEP"
  "LINEAR \<noteq> CUBICSPLINE" "CUBICSPLINE \<noteq> LINEAR" "STEP \<noteq> []" "LINEAR \<noteq> []" "CUBICSPLINE \<noteq> []"
  by (simp_all add: STEP_def LINEAR_def CUBICSPLINE_def)

text \<open>
  C3, as the spec states it, fails: "any other value" includes the empty string, which
  is none of the three modes, and \<^verbatim>\<open>||\<close> replaces it by \<^verbatim>\<open>LINEAR\<close> like an absent
  value. The sampler below is decoded without an error.
\<close>

theorem empty_interpolation_accepted:
  "[] \<noteq> STEP \<and> [] \<noteq> LINEAR \<and> [] \<noteq> CUBICSPLINE \<and>
   u_loadAnimationSamplerAsync ''/animations/0/samplers/0''
     \<lparr>sampler_input = 0, sampler_interpolation = Some [], sampler_output = 1, u_data = None\<rparr>
     \<lparr>accessors = [Inr [0, 1], Inr [5, 6 :: nat]], accessorLoads = [], promisesCreated = 0\<rparr>
   = (Inr \<lparr>promise_id = 0,
            outcome = (Inr \<lparr>input = [0, 1], interpolation = LINEAR, output' = [5, 6]\<rparr>
                        :: unit + nat IEXTPropertyAnimationSamplerData)\<rparr>,
      \<lparr>sampler_input = 0, sampler_interpolation = Some [], sampler_output = 1,
       u_data = Some \<lparr>promise_id = 0,
            outcome = Inr \<lparr>input = [0, 1], interpolation = LINEAR, output' = [5, 6]\<rparr>\<rparr>\<rparr>,
      \<lparr>accessors = [Inr [0, 1], Inr [5, 6]], accessorLoads = [0, 1], promisesCreated = 1\<rparr>)"
  by (simp add: u_loadAnimationSamplerAsync_def interpolation_or_LINEAR_def ArrayItem_Get_def
        sampler_outcome_def STEP_def LINEAR_def CUBICSPLINE_def Let_def)

text \<open>
  C3, amended: for a sampler that is not decoded yet, (1) when the mode after the default
  (\<^verbatim>\<open>LINEAR\<close> for an absent or empty interpolation) is one of the three and both accessors
  exist, the call returns a new promise, stores it in \<^verbatim>\<open>_data\<close>, starts the two reads,
  and the promise is fulfilled with the arrays read and that mode; (2) for every other
  non-empty value the call raises the error that names the context and the value, and
  leaves the sampler and the loader as they were: no read is started.
\<close>

theorem decode_checks_interpolation:
  assumes "u_data smp = None"
  shows "(interpolation_or_LINEAR (sampler_interpolation smp) \<in> {STEP, LINEAR, CUBICSPLINE}
            \<and> sampler_input smp < length (accessors ld) \<and> sampler_output smp < length (accessors ld)
          \<longrightarrow> (\<exists>p. u_loadAnimationSamplerAsync ctx smp ld
                      = (Inr p, smp\<lparr>u_data := Some p\<rparr>,
                         ld\<lparr>accessorLoads :=
                               accessorLoads ld @ [sampler_input smp, sampler_output smp],
                            promisesCreated := Suc (promisesCreated ld)\<rparr>)
                  \<and> (\<forall>inputData outputData.
                        accessors ld ! sampler_input smp = Inr inputData
                          \<and> accessors ld ! sampler_output smp = Inr outputData
                        \<longrightarrow> outcome p =
                              Inr \<lparr>input = inputData,
                                   interpolation =
                                     (if sampler_interpolation smp = None
                                         \<or> sampler_interpolation smp = Some []
                                      then LINEAR else the (sampler_interpolation smp)),
                                   output' = outputData\<rparr>)))
       \<and> (\<forall>s. sampler_interpolation smp = Some s \<and> s \<noteq> []
                 \<and> s \<noteq> STEP \<and> s \<noteq> LINEAR \<and> s \<noteq> CUBICSPLINE
              \<longrightarrow> u_loadAnimationSamplerAsync ctx smp ld
                    = (Inl (Error (MalformedAnimation ctx s)), smp, ld))"
  using assms
  by (auto simp: u_loadAnimationSamplerAsync_def interpolation_or_LINEAR_def ArrayItem_Get_def
        sampler_outcome_def Let_def split: option.splits)

theorem decode_checks_interpolation_witness:
  "(\<exists>p. u_loadAnimationSamplerAsync ''/animations/0/samplers/0''
          \<lparr>sampler_input = 0, sampler_interpolation = None, sampler_output = 1, u_data = None\<rparr>
          \<lparr>accessors = [Inr [0, 1], Inr [5, 6 :: real]] :: ((unit \<times> nat) + real list) list,
           accessorLoads = [], promisesCreated = 0\<rparr>
        = (Inr p,
           \<lparr>sampler_input = 0, sampler_interpolation = None, sampler_output = 1, u_data = Some p\<rparr>,
           \<lparr>accessors = [Inr [0, 1], Inr [5, 6]], accessorLoads = [0, 1], promisesCreated = 1\<rparr>)
      \<and> outcome p = Inr \<lparr>input = [0, 1], interpolation = LINEAR, output' = [5, 6]\<rparr>)
   \<and> u_loadAnimationSamplerAsync ''/animations/0/samplers/0''
          \<lparr>sampler_input = 0, sampler_interpolation = Some ''SMOOTH'', sampler_output = 1,
           u_data = None\<rparr>
          \<lparr>accessors = [Inr [0, 1], Inr [5, 6 :: real]] :: ((unit \<times> nat) + real list) list,
           accessorLoads = [], promisesCreated = 0\<rparr>
        = (Inl (Error (MalformedAnimation ''/animations/0/samplers/0'' ''SMOOTH'')),
           \<lparr>sampler_input = 0, sampler_interpolation = Some ''SMOOTH'', sampler_output = 1,
            u_data = None\<rparr>,
           \<lparr>accessors = [Inr [0, 1], Inr [5, 6]], accessorLoads = [], promisesCreated = 0\<rparr>)"
  using decode_checks_interpolation
      [of "\<lparr>sampler_input = 0, sampler_interpolation = None, sampler_output = 1, u_data = None\<rparr>"
          "\<lparr>accessors = [Inr [0, 1], Inr [5, 6 :: real]] :: ((unit \<times> nat) + real list) list,
            accessorLoads = [], promisesCreated = 0\<rparr>"
          "''/animations/0/samplers/0''"]
    decode_checks_interpolation
      [of "\<lparr>sampler_input = 0, sampler_interpolation = Some ''SMOOTH'', sampler_output = 1,
            u_data = None\<rparr>"
          "\<lparr>accessors = [Inr [0, 1], Inr [5, 6 :: real]] :: ((unit \<times> nat) + real list) list,
            accessorLoads = [], promisesCreated = 0\<rparr>"
          "''/animations/0/samplers/0''"]
  by (simp add: interpolation_or_LINEAR_def STEP_def LINEAR_def CUBICSPLINE_def)

lemma sampler_outcome_first_rejection:
  "sampler_outcome interp (Inl (x, 2)) (Inl (y, 1)) = Inl y"
  "sampler_outcome interp (Inl (x, 1)) (Inl (y, 2)) = Inl x"
  "sampler_outcome interp (Inr inputData) (Inl (y, u)) = Inl y"
  "sampler_outcome interp (Inl (x, t)) (Inr outputData) = Inl x"
  by (simp_all add: sampler_outcome_def)

lemma decode_cached:
  "u_data smp = Some p \<Longrightarrow> u_loadAnimationSamplerAsync ctx smp ld = (Inr p, smp, ld)"
  by (simp add: u_loadAnimationSamplerAsync_def)

lemma decode_Inr:
  "u_loadAnimationSamplerAsync ctx smp ld = (Inr p, smp1, ld1) \<Longrightarrow>
     u_data smp1 = Some p
     \<and> (accessorLoads ld1 = accessorLoads ld
          \<or> accessorLoads ld1 = accessorLoads ld @ [sampler_input smp, sampler_output smp])"
  by (auto simp: u_loadAnimationSamplerAsync_def Let_def split: option.splits if_splits sum.splits)

lemma decode_Inl:
  "u_loadAnimationSamplerAsync ctx smp ld = (Inl e, smp1, ld1) \<Longrightarrow> smp1 = smp \<and> ld1 = ld"
  by (auto simp: u_loadAnimationSamplerAsync_def Let_def split: option.splits if_splits sum.splits)

lemma decode_each_cached:
  "u_data smp = Some p \<Longrightarrow>
     decode_each ctxs smp ld = (replicate (length ctxs) (Inr p), smp, ld)"
  by (induction ctxs) (simp_all add: decode_cached)

lemma decode_each_once:
  "decode_each ctxs smp ld = (rs, smp', ld') \<Longrightarrow>
     (accessorLoads ld' = accessorLoads ld
        \<or> accessorLoads ld' = accessorLoads ld @ [sampler_input smp, sampler_output smp])
     \<and> (\<forall>p q. Inr p \<in> set rs \<and> Inr q \<in> set rs \<longrightarrow> p = q)"
proof (induction ctxs arbitrary: rs smp' ld')
  case Nil
  then show ?case by simp
next
  case (Cons c cs)
  obtain r smp1 ld1 where first: "u_loadAnimationSamplerAsync c smp ld = (r, smp1, ld1)"
    by (cases "u_loadAnimationSamplerAsync c smp ld") auto
  obtain rs1 smp2 ld2 where others: "decode_each cs smp1 ld1 = (rs1, smp2, ld2)"
    by (cases "decode_each cs smp1 ld1") auto
  from Cons.prems first others have rs: "rs = r # rs1" and ld': "ld' = ld2"
    by simp_all
  show ?case
  proof (cases r)
    case (Inl e)
    with first have "smp1 = smp" "ld1 = ld"
      using decode_Inl by blast+
    with others Cons.IH [of rs1 smp2 ld2] rs ld' Inl show ?thesis
      by auto
  next
    case (Inr p)
    with first have cached: "u_data smp1 = Some p"
      and loads: "accessorLoads ld1 = accessorLoads ld
          \<or> accessorLoads ld1 = accessorLoads ld @ [sampler_input smp, sampler_output smp]"
      using decode_Inr by blast+
    from others decode_each_cached [OF cached, of cs ld1]
    have "rs1 = replicate (length cs) (Inr p)" "ld2 = ld1"
      by simp_all
    with rs ld' Inr loads show ?thesis
      by auto
  qed
qed


lemma decode_any_context:
  "u_loadAnimationSamplerAsync ctx smp ld = (Inr p, smp1, ld1) \<Longrightarrow>
     u_loadAnimationSamplerAsync ctx2 smp ld = (Inr p, smp1, ld1)"
  by (auto simp: u_loadAnimationSamplerAsync_def ArrayItem_Get_def Let_def
           split: option.splits if_splits)

lemma decode_each_same:
  assumes "u_loadAnimationSamplerAsync ctx smp ld = (Inr p, smp1, ld1)"
  shows "decode_each ctxs smp ld
           = (replicate (length ctxs) (Inr p),
              if ctxs = [] then smp else smp1, if ctxs = [] then ld else ld1)"
proof (cases ctxs)
  case Nil
  then show ?thesis by simp
next
  case (Cons c cs)
  from decode_Inr [OF assms] have "u_data smp1 = Some p"
    by simp
  then show ?thesis
    using decode_any_context [OF assms, of c] Cons by (simp add: decode_each_cached)
qed

text \<open>
  C4: once a call for a sampler has returned the promise \<open>p\<close>, every later call for that
  sampler, with any context and in any later state of the loader (so also before \<open>p\<close> has
  settled: the cache is written before the first call returns), returns the same \<open>p\<close>
  and changes neither the sampler nor the loader: no read is started. The first call
  itself started the two reads once, or none when it found \<open>p\<close> in the cache. Any number of
  calls in a row for one sampler leave at most that one pair of reads in the log, and
  every one of them returns \<open>p\<close>, hence the same decoded data.
\<close>

theorem decode_single_flight:
  assumes "u_loadAnimationSamplerAsync ctx smp ld = (Inr p, smp1, ld1)"
  shows "u_loadAnimationSamplerAsync ctx2 smp1 ld2 = (Inr p, smp1, ld2)
       \<and> (accessorLoads ld1 = accessorLoads ld
            \<or> accessorLoads ld1 = accessorLoads ld @ [sampler_input smp, sampler_output smp])
       \<and> (\<forall>ctxs rs smp' ld'.
             decode_each ctxs smp ld = (rs, smp', ld') \<longrightarrow>
               list_all (\<lambda>r. r = Inr p) rs
             \<and> (accessorLoads ld' = accessorLoads ld
                  \<or> accessorLoads ld' = accessorLoads ld @ [sampler_input smp, sampler_output smp]))"
proof (intro conjI allI impI)
  from decode_Inr [OF assms] have cached: "u_data smp1 = Some p"
    by simp
  then show "u_loadAnimationSamplerAsync ctx2 smp1 ld2 = (Inr p, smp1, ld2)"
    by (rule decode_cached)
  show "accessorLoads ld1 = accessorLoads ld
          \<or> accessorLoads ld1 = accessorLoads ld @ [sampler_input smp, sampler_output smp]"
    using decode_Inr [OF assms] by simp
next
  fix ctxs rs smp' ld'
  assume run: "decode_each ctxs smp ld = (rs, smp', ld')"
  with decode_each_same [OF assms, of ctxs] show "list_all (\<lambda>r. r = Inr p) rs"
    by (auto simp: list_all_iff)
  from decode_each_once [OF run]
  show "accessorLoads ld' = accessorLoads ld
          \<or> accessorLoads ld' = accessorLoads ld @ [sampler_input smp, sampler_output smp]"
    by simp
qed

theorem decode_single_flight_witness:
  "u_loadAnimationSamplerAsync ''/animations/0/samplers/0''
      \<lparr>sampler_input = 0, sampler_interpolation = Some STEP, sampler_output = 1, u_data = None\<rparr>
      \<lparr>accessors = [Inr [0, 1], Inr [5, 6 :: real]] :: ((unit \<times> nat) + real list) list,
       accessorLoads = [], promisesCreated = 0\<rparr>
    = (Inr \<lparr>promise_id = 0,
             outcome = Inr \<lparr>input = [0, 1], interpolation = STEP, output' = [5, 6]\<rparr>\<rparr>,
       \<lparr>sampler_input = 0, sampler_interpolation = Some STEP, sampler_output = 1,
        u_data = Some \<lparr>promise_id = 0,
             outcome = Inr \<lparr>input = [0, 1], interpolation = STEP, output' = [5, 6]\<rparr>\<rparr>\<rparr>,
       \<lparr>accessors = [Inr [0, 1], Inr [5, 6]], accessorLoads = [0, 1], promisesCreated = 1\<rparr>)
   \<and> u_loadAnimationSamplerAsync ''/animations/0/samplers/0''
      \<lparr>sampler_input = 0, sampler_interpolation = Some STEP, sampler_output = 1,
        u_data = Some \<lparr>promise_id = 0,
             outcome = Inr \<lparr>input = [0, 1], interpolation = STEP, output' = [5, 6 :: real]\<rparr>
                        :: unit + real IEXTPropertyAnimationSamplerData\<rparr>\<rparr>
      \<lparr>accessors = [Inr [0, 1], Inr [5, 6]], accessorLoads = [0, 1, 4, 5], promisesCreated = 2\<rparr>
    = (Inr \<lparr>promise_id = 0,
             outcome = Inr \<lparr>input = [0, 1], interpolation = STEP, output' = [5, 6]\<rparr>\<rparr>,
       \<lparr>sampler_input = 0, sampler_interpolation = Some STEP, sampler_output = 1,
        u_data = Some \<lparr>promise_id = 0,
             outcome = Inr \<lparr>input = [0, 1], interpolation = STEP, output' = [5, 6]\<rparr>\<rparr>\<rparr>,
       \<lparr>accessors = [Inr [0, 1], Inr [5, 6]], accessorLoads = [0, 1, 4, 5], promisesCreated = 2\<rparr>)"
proof -
  have first: "u_loadAnimationSamplerAsync ''/animations/0/samplers/0''
      \<lparr>sampler_input = 0, sampler_interpolation = Some STEP, sampler_output = 1, u_data = None\<rparr>
      \<lparr>accessors = [Inr [0, 1], Inr [5, 6 :: real]] :: ((unit \<times> nat) + real list) list,
       accessorLoads = [], promisesCreated = 0\<rparr>
    = (Inr \<lparr>promise_id = 0,
             outcome = Inr \<lparr>input = [0, 1], interpolation = STEP, output' = [5, 6]\<rparr>\<rparr>,
       \<lparr>sampler_input = 0, sampler_interpolation = Some STEP, sampler_output = 1,
        u_data = Some \<lparr>promise_id = 0,
             outcome = Inr \<lparr>input = [0, 1], interpolation = STEP, output' = [5, 6]\<rparr>\<rparr>\<rparr>,
       \<lparr>accessors = [Inr [0, 1], Inr [5, 6]], accessorLoads = [0, 1], promisesCreated = 1\<rparr>)"
    by (simp add: u_loadAnimationSamplerAsync_def interpolation_or_LINEAR_def ArrayItem_Get_def
          sampler_outcome_def Let_def)
  from decode_single_flight [OF first,
      of "''/animations/0/samplers/0''"
         "\<lparr>accessors = [Inr [0, 1], Inr [5, 6]], accessorLoads = [0, 1, 4, 5],
           promisesCreated = 2\<rparr>"]
    first
  show ?thesis
    by simp
qed

subsection \<open>Building the keys\<close>

lemma build_keys_uniform:
  assumes "\<And>j off. k g j off = Inr (mk j off, off + d)"
  shows "build_keys (Some k) g n i off ks
           = Inr (ks @ map (\<lambda>j. mk j (off + d * (j - i))) [i..<n], off + d * (n - i))"
proof (induction "n - i" arbitrary: i off ks)
  case 0
  then show ?case by (simp add: build_keys.simps)
next
  case (Suc m)
  then have less: "i < n" and m: "m = n - Suc i"
    by simp_all
  have "build_keys (Some k) g n i off ks
          = build_keys (Some k) g n (Suc i) (off + d) (ks @ [mk i off])"
    using less assms by (subst build_keys.simps) simp
  also have "\<dots> = Inr ((ks @ [mk i off])
                        @ map (\<lambda>j. mk j (off + d + d * (j - Suc i))) [Suc i..<n],
                      off + d + d * (n - Suc i))"
    using Suc.hyps(1) [OF m] .
  also have "map (\<lambda>j. mk j (off + d + d * (j - Suc i))) [Suc i..<n]
               = map (\<lambda>j. mk j (off + d * (j - i))) [Suc i..<n]"
  proof (rule map_cong)
    fix j assume "j \<in> set [Suc i..<n]"
    then have "j - i = Suc (j - Suc i)"
      by auto
    then show "mk j (off + d + d * (j - Suc i)) = mk j (off + d * (j - i))"
      by (simp add: add.assoc)
  qed simp
  also have "off + d + d * (n - Suc i) = off + d * (n - i)"
  proof -
    from less have "n - i = Suc (n - Suc i)"
      by simp
    then show ?thesis
      by (simp add: add.assoc)
  qed
  finally show ?case
    using less by (simp add: upt_conv_Cons)
qed

lemma build_keys_STEP:
  assumes "\<And>off. snd (f off) = off + c"
  shows "build_keys (getNextKey STEP inp) (Some f) n i off ks
     = Inr (ks @ map (\<lambda>j. \<lparr>frame = float_at inp j, inTangent = None,
                             key_value = fst (f (off + c * (j - i))), outTangent = None,
                             key_interpolation = Some AnimationKeyInterpolation_STEP\<rparr>) [i..<n],
            off + c * (n - i))"
  unfolding getNextKey_def
  by (simp, rule build_keys_uniform)
     (simp add: call_getNextOutputValue_def case_prod_beta assms)

lemma build_keys_LINEAR:
  assumes "\<And>off. snd (f off) = off + c"
  shows "build_keys (getNextKey LINEAR inp) (Some f) n i off ks
     = Inr (ks @ map (\<lambda>j. \<lparr>frame = float_at inp j, inTangent = None,
                             key_value = fst (f (off + c * (j - i))), outTangent = None,
                             key_interpolation = None\<rparr>) [i..<n],
            off + c * (n - i))"
  unfolding getNextKey_def
  by (simp, rule build_keys_uniform)
     (simp add: call_getNextOutputValue_def case_prod_beta assms)






subsection \<open>Assembling a channel\<close>

lemmas channel_defs =
  on_sampler_data_def u_getAnimationObject_def registry_defs channel_tracks_def Let_def
  build_keys.simps getNextKey_def getNextOutputValue_def getNextOutputValue_alpha_def
  call_getNextOutputValue_def float_at_def Color3_FromArray_def Vector2_FromArray_def
  Vector3_FromArray_def Quaternion_FromArray_def attach_def addTargetedAnimation_def
  animationName_def NAME_def string_of_nat.simps digit_char_def

lemma example_resolve:
  "u_getAnimationObject (\<lambda>n p. None) () example_registry ''/channels/0'' ''/animations/0''
       ''materials/0/pbrMetallicRoughness/baseColorFactor''
     = Inr \<lparr>targetPath = ''albedoColor'', animationType = ANIMATIONTYPE_COLOR4, object = Some 5\<rparr>"
  by (simp add: u_getAnimationObject_def registry_defs example_registry_def)

lemma example_color4:
  "on_sampler_data (\<lambda>n p. None) () example_registry ''/channels/0'' ''/animations/0''
      \<lparr>channel_sampler = 0, channel_target = ''materials/0/pbrMetallicRoughness/baseColorFactor''\<rparr>
      \<lparr>input = [0, 1], interpolation = LINEAR, output' = [1, 2, 3, 4, 5, 6, 7, 8 :: real]\<rparr>
      \<lparr>group_name = ''walk'', targetedAnimations = []\<rparr>
   = (\<lparr>group_name = ''walk'',
       targetedAnimations =
         [(\<lparr>name = ''walk_EXT_property_animation_channel0'', targetProperty = ''albedoColor'',
            framePerSecond = 1, dataType = ANIMATIONTYPE_COLOR4,
            keys = [\<lparr>frame = Some 0, inTangent = None,
                     key_value = Color3 (Some 1) (Some 2) (Some 3), outTangent = None,
                     key_interpolation = None\<rparr>,
                    \<lparr>frame = Some 1, inTangent = None,
                     key_value = Color3 (Some 5) (Some 6) (Some 7), outTangent = None,
                     key_interpolation = None\<rparr>]\<rparr>, 5),
          (\<lparr>name = ''walk_EXT_property_animation_channel1_alpha'', targetProperty = ''alpha'',
            framePerSecond = 1, dataType = ANIMATIONTYPE_FLOAT,
            keys = [\<lparr>frame = Some 0, inTangent = None, key_value = Number (Some 4),
                     outTangent = None, key_interpolation = None\<rparr>,
                    \<lparr>frame = Some 1, inTangent = None, key_value = Number (Some 8),
                     outTangent = None, key_interpolation = None\<rparr>]\<rparr>, 5)]\<rparr>,
      (Inr \<lparr>babylonAnimation =
             \<lparr>name = ''walk_EXT_property_animation_channel0'', targetProperty = ''albedoColor'',
              framePerSecond = 1, dataType = ANIMATIONTYPE_COLOR4,
              keys = [\<lparr>frame = Some 0, inTangent = None,
                       key_value = Color3 (Some 1) (Some 2) (Some 3), outTangent = None,
                       key_interpolation = None\<rparr>,
                      \<lparr>frame = Some 1, inTangent = None,
                       key_value = Color3 (Some 5) (Some 6) (Some 7), outTangent = None,
                       key_interpolation = None\<rparr>]\<rparr>,
            alphaBabylonAnimation = Some
             \<lparr>name = ''walk_EXT_property_animation_channel1_alpha'', targetProperty = ''alpha'',
              framePerSecond = 1, dataType = ANIMATIONTYPE_FLOAT,
              keys = [\<lparr>frame = Some 0, inTangent = None, key_value = Number (Some 4),
                       outTangent = None, key_interpolation = None\<rparr>,
                      \<lparr>frame = Some 1, inTangent = None, key_value = Number (Some 8),
                       outTangent = None, key_interpolation = None\<rparr>]\<rparr>\<rparr>
         :: unit error + real built_tracks))"
  by (simp add: channel_defs example_registry_def ANIMATIONTYPE_defs LINEAR_def STEP_def)

lemma example_step:
  "on_sampler_data (\<lambda>n p. None) () example_registry ''/channels/0'' ''/animations/0''
      \<lparr>channel_sampler = 0, channel_target = ''materials/0/pbrMetallicRoughness/metallicFactor''\<rparr>
      \<lparr>input = [0, 1], interpolation = STEP, output' = [7, 8 :: real]\<rparr>
      \<lparr>group_name = ''walk'', targetedAnimations = []\<rparr>
   = (\<lparr>group_name = ''walk'',
       targetedAnimations =
         [(\<lparr>name = ''walk_EXT_property_animation_channel0'', targetProperty = ''metallic'',
            framePerSecond = 1, dataType = ANIMATIONTYPE_FLOAT,
            keys = [\<lparr>frame = Some 0, inTangent = None, key_value = Number (Some 7),
                     outTangent = None,
                     key_interpolation = Some AnimationKeyInterpolation_STEP\<rparr>,
                    \<lparr>frame = Some 1, inTangent = None, key_value = Number (Some 8),
                     outTangent = None,
                     key_interpolation = Some AnimationKeyInterpolation_STEP\<rparr>]\<rparr>, 5)]\<rparr>,
      (Inr \<lparr>babylonAnimation =
             \<lparr>name = ''walk_EXT_property_animation_channel0'', targetProperty = ''metallic'',
              framePerSecond = 1, dataType = ANIMATIONTYPE_FLOAT,
              keys = [\<lparr>frame = Some 0, inTangent = None, key_value = Number (Some 7),
                       outTangent = None,
                       key_interpolation = Some AnimationKeyInterpolation_STEP\<rparr>,
                      \<lparr>frame = Some 1, inTangent = None, key_value = Number (Some 8),
                       outTangent = None,
                       key_interpolation = Some AnimationKeyInterpolation_STEP\<rparr>]\<rparr>,
            alphaBabylonAnimation = None\<rparr>
         :: unit error + real built_tracks))"
  by (simp add: channel_defs example_registry_def ANIMATIONTYPE_defs LINEAR_def STEP_def)

lemma getNextKey_marker:
  "getNextKey interp inp = Some k \<Longrightarrow> k g j off = Inr (key, off1) \<Longrightarrow>
     key_interpolation key = (if interp = STEP then Some AnimationKeyInterpolation_STEP else None)"
  by (auto simp: getNextKey_def split: if_splits sum.splits prod.splits)

lemma build_keys_marker:
  "build_keys nextKey g n i off ks = Inr (ks', off') \<Longrightarrow>
   nextKey = getNextKey interp inp \<Longrightarrow>
   list_all (\<lambda>k. key_interpolation k
                     = (if interp = STEP then Some AnimationKeyInterpolation_STEP else None)) ks \<Longrightarrow>
   list_all (\<lambda>k. key_interpolation k
                     = (if interp = STEP then Some AnimationKeyInterpolation_STEP else None)) ks'"
proof (induction nextKey g n i off ks rule: build_keys.induct)
  case (1 nextKey g n frameIndex off ks)
  show ?case
  proof (cases "frameIndex < n")
    case False
    with "1.prems" show ?thesis
      by (simp add: build_keys.simps)
  next
    case True
    with "1.prems"(1) obtain k key off1 where k: "nextKey = Some k"
      and call: "k g frameIndex off = Inr (key, off1)"
      and rest: "build_keys nextKey g n (Suc frameIndex) off1 (ks @ [key]) = Inr (ks', off')"
      by (subst (asm) build_keys.simps) (auto split: option.splits sum.splits)
    from k call "1.prems"(2) have "key_interpolation key
        = (if interp = STEP then Some AnimationKeyInterpolation_STEP else None)"
      using getNextKey_marker [of interp inp k g frameIndex off key off1] by simp
    with "1.IH" [OF True k call refl rest "1.prems"(2)] "1.prems"(3) show ?thesis
      by simp
  qed
qed

text \<open>
  C10: when a callback has built its tracks, every key of them (primary and alpha) carries
  the step marker in its \<^verbatim>\<open>interpolation\<close> field if the sampler's mode is \<^verbatim>\<open>STEP\<close>, and
  has no such field if the mode is \<^verbatim>\<open>LINEAR\<close> or \<^verbatim>\<open>CUBICSPLINE\<close>.
\<close>

theorem key_interpolation_marker:
  assumes "on_sampler_data other_props gltf registry context animationContext channel data grp
             = (grp', (Inr tracks :: 'x error + 'a built_tracks))"
  shows "(interpolation data = STEP \<longrightarrow>
            (\<forall>k \<in> set (built_keys tracks).
               key_interpolation k = Some AnimationKeyInterpolation_STEP))
       \<and> (interpolation data = LINEAR \<or> interpolation data = CUBICSPLINE \<longrightarrow>
            (\<forall>k \<in> set (built_keys tracks). key_interpolation k = None))"
proof -
  let ?P = "\<lambda>k. key_interpolation k
        = (if interpolation data = STEP then Some AnimationKeyInterpolation_STEP else None)"
  from assms obtain tgt
    where tr: "channel_tracks tgt data grp = (grp', (Inr tracks :: 'x error + 'a built_tracks))"
    by (auto simp: on_sampler_data_def split: sum.splits)
  have "list_all ?P (built_keys tracks)"
    using tr
    by (auto simp: channel_tracks_def Let_def built_keys_def
             split: sum.splits prod.splits if_splits
             dest!: build_keys_marker [where interp = "interpolation data" and inp = "input data"])
  then show ?thesis
    by (auto simp: list_all_iff)
qed


theorem key_interpolation_marker_witness:
  "(\<exists>grp' tracks.
      on_sampler_data (\<lambda>n p. None) () example_registry ''/channels/0'' ''/animations/0''
        \<lparr>channel_sampler = 0, channel_target = ''materials/0/pbrMetallicRoughness/metallicFactor''\<rparr>
        \<lparr>input = [0, 1], interpolation = STEP, output' = [7, 8 :: real]\<rparr>
        \<lparr>group_name = ''walk'', targetedAnimations = []\<rparr>
      = (grp', (Inr tracks :: unit error + real built_tracks))
    \<and> map key_interpolation (built_keys tracks)
        = [Some AnimationKeyInterpolation_STEP, Some AnimationKeyInterpolation_STEP])
   \<and> (\<exists>grp' tracks.
      on_sampler_data (\<lambda>n p. None) () example_registry ''/channels/0'' ''/animations/0''
        \<lparr>channel_sampler = 0, channel_target = ''materials/0/pbrMetallicRoughness/baseColorFactor''\<rparr>
        \<lparr>input = [0, 1], interpolation = LINEAR, output' = [1, 2, 3, 4, 5, 6, 7, 8 :: real]\<rparr>
        \<lparr>group_name = ''walk'', targetedAnimations = []\<rparr>
      = (grp', (Inr tracks :: unit error + real built_tracks))
    \<and> map key_interpolation (built_keys tracks) = [None, None, None, None])"
  using key_interpolation_marker [OF example_step] key_interpolation_marker [OF example_color4]
  by (simp add: example_step example_color4 built_keys_def)

lemma color4_keys:
  assumes "interp = STEP \<or> interp = LINEAR"
  shows "build_keys (getNextKey interp inp) (getNextOutputValue ANIMATIONTYPE_COLOR4 out) n 0 0 []
     = Inr (map (\<lambda>j. \<lparr>frame = float_at inp j, inTangent = None,
                        key_value = Color3_FromArray out (4 * j), outTangent = None,
                        key_interpolation =
                          (if interp = STEP then Some AnimationKeyInterpolation_STEP else None)\<rparr>)
              [0..<n], 4 * n)"
proof -
  let ?f = "\<lambda>outputBufferOffset. (Color3_FromArray out outputBufferOffset, outputBufferOffset + 4)"
  have g: "getNextOutputValue ANIMATIONTYPE_COLOR4 out = Some ?f"
    by (simp add: getNextOutputValue_def ANIMATIONTYPE_defs)
  have adv: "\<And>off. snd (?f off) = off + 4"
    by simp
  from assms show ?thesis
    unfolding g
    by (auto simp: build_keys_STEP [of ?f 4, OF adv] build_keys_LINEAR [of ?f 4, OF adv])
qed

lemma alpha_keys:
  assumes "interp = STEP \<or> interp = LINEAR"
  shows "build_keys (getNextKey interp inp) (Some (getNextOutputValue_alpha out)) n 0 3 []
     = Inr (map (\<lambda>j. \<lparr>frame = float_at inp j, inTangent = None,
                        key_value = Number (float_at out (3 + 4 * j)), outTangent = None,
                        key_interpolation =
                          (if interp = STEP then Some AnimationKeyInterpolation_STEP else None)\<rparr>)
              [0..<n], 3 + 4 * n)"
proof -
  have adv: "\<And>off. snd (getNextOutputValue_alpha out off) = off + 4"
    by (simp add: getNextOutputValue_alpha_def)
  from assms show ?thesis
    by (auto simp: build_keys_STEP [of "getNextOutputValue_alpha out" 4, OF adv]
          build_keys_LINEAR [of "getNextOutputValue_alpha out" 4, OF adv]
          getNextOutputValue_alpha_def)
qed

text \<open>
  C1: for a channel whose target resolves to a descriptor of the 4-component colour type,
  with \<^verbatim>\<open>STEP\<close> or \<^verbatim>\<open>LINEAR\<close> data whose output holds four floats per timestamp, the
  callback builds a primary track and an alpha track with one key per timestamp; key \<open>i\<close>
  of the primary track is the colour of floats \<open>4i\<close>, \<open>4i + 1\<close>, \<open>4i + 2\<close>, key \<open>i\<close> of the
  alpha track is the float \<open>4i + 3\<close>, and both have the frame \<open>input[i]\<close>; the alpha track
  animates the property \<^verbatim>\<open>alpha\<close> as a scalar; and when the descriptor holds an object,
  both tracks are attached to it, in that order, else none is.
\<close>

theorem color4_two_tracks:
  assumes "u_getAnimationObject other_props gltf registry context animationContext
             (channel_target channel) = Inr tgt"
    and "animationType tgt = ANIMATIONTYPE_COLOR4"
    and "interpolation data = STEP \<or> interpolation data = LINEAR"
    and "length (output' data) = 4 * length (input data)"
  shows "\<exists>primary alpha grp'.
      on_sampler_data other_props gltf registry context animationContext channel data grp
        = (grp', (Inr \<lparr>babylonAnimation = primary, alphaBabylonAnimation = Some alpha\<rparr>
                    :: 'x error + 'a built_tracks))
    \<and> length (keys primary) = length (input data)
    \<and> length (keys alpha) = length (input data)
    \<and> (\<forall>i < length (input data).
          key_value (keys primary ! i)
            = Color3 (Some (output' data ! (4 * i))) (Some (output' data ! (4 * i + 1)))
                (Some (output' data ! (4 * i + 2)))
        \<and> key_value (keys alpha ! i) = Number (Some (output' data ! (4 * i + 3)))
        \<and> frame (keys primary ! i) = Some (input data ! i)
        \<and> frame (keys alpha ! i) = frame (keys primary ! i))
    \<and> targetProperty alpha = ''alpha''
    \<and> dataType alpha = ANIMATIONTYPE_FLOAT
    \<and> targetedAnimations grp'
        = targetedAnimations grp
            @ (case object tgt of None \<Rightarrow> [] | Some obj \<Rightarrow> [(primary, obj), (alpha, obj)])"
  apply (simp add: on_sampler_data_def assms(1))
  apply (simp add: channel_tracks_def Let_def assms(2) color4_keys [OF assms(3)]
      alpha_keys [OF assms(3)])
  apply (simp add: float_at_def Color3_FromArray_def assms(4) attach_def addTargetedAnimation_def
      add.commute split: option.splits)
  done

theorem color4_two_tracks_witness:
  "\<exists>primary alpha grp'.
      on_sampler_data (\<lambda>n p. None) () example_registry ''/channels/0'' ''/animations/0''
        \<lparr>channel_sampler = 0, channel_target = ''materials/0/pbrMetallicRoughness/baseColorFactor''\<rparr>
        \<lparr>input = [0, 1], interpolation = LINEAR, output' = [1, 2, 3, 4, 5, 6, 7, 8 :: real]\<rparr>
        \<lparr>group_name = ''walk'', targetedAnimations = []\<rparr>
      = (grp', (Inr \<lparr>babylonAnimation = primary, alphaBabylonAnimation = Some alpha\<rparr>
                  :: unit error + real built_tracks))
    \<and> map key_value (keys primary)
        = [Color3 (Some 1) (Some 2) (Some 3), Color3 (Some 5) (Some 6) (Some 7)]
    \<and> map key_value (keys alpha) = [Number (Some 4), Number (Some 8)]
    \<and> map frame (keys primary) = [Some 0, Some 1]
    \<and> map frame (keys alpha) = [Some 0, Some 1]
    \<and> targetProperty alpha = ''alpha''
    \<and> targetedAnimations grp' = [(primary, 5), (alpha, 5)]"
  using color4_two_tracks
      [of "\<lambda>n p. None" "()" example_registry "''/channels/0''" "''/animations/0''"
          "\<lparr>channel_sampler = 0,
            channel_target = ''materials/0/pbrMetallicRoughness/baseColorFactor''\<rparr>"
          "\<lparr>targetPath = ''albedoColor'', animationType = ANIMATIONTYPE_COLOR4, object = Some 5\<rparr>"
          "\<lparr>input = [0, 1], interpolation = LINEAR, output' = [1, 2, 3, 4, 5, 6, 7, 8 :: real]\<rparr>"
          "\<lparr>group_name = ''walk'', targetedAnimations = []\<rparr>"]
  by (simp add: example_color4 example_resolve)

text \<open>
  C9: a sampler with interpolation \<^verbatim>\<open>STEP\<close>, input \<^verbatim>\<open>[0, 1, 2]\<close> and output
  \<^verbatim>\<open>[1, 2, 3]\<close>, bound by a channel to the scalar property \<^verbatim>\<open>metallicFactor\<close> of material
  0: the channel decodes the sampler and builds one track of exactly three keys, with
  frames 0, 1, 2 and values 1, 2, 3 in that order, none with a tangent (each with the
  step marker of C10).
\<close>

theorem step_scalar_round_trip:
  "u_loadAnimationChannelAsync (\<lambda>n p. None) () example_registry
     ''/animations/0/extensions/EXT_property_animation/channels/0'' ''/animations/0''
     \<lparr>channel_sampler = 0, channel_target = ''materials/0/pbrMetallicRoughness/metallicFactor''\<rparr>
     [\<lparr>sampler_input = 0, sampler_interpolation = Some STEP, sampler_output = 1, u_data = None\<rparr>]
     \<lparr>accessors = [Inr [0, 1, 2], Inr [1, 2, 3 :: real]], accessorLoads = [], promisesCreated = 0\<rparr>
     \<lparr>group_name = ''walk'', targetedAnimations = []\<rparr>
   = (Inr \<lparr>babylonAnimation =
             \<lparr>name = ''walk_EXT_property_animation_channel0'', targetProperty = ''metallic'',
              framePerSecond = 1, dataType = ANIMATIONTYPE_FLOAT,
              keys = [\<lparr>frame = Some 0, inTangent = None, key_value = Number (Some 1),
                       outTangent = None,
                       key_interpolation = Some AnimationKeyInterpolation_STEP\<rparr>,
                      \<lparr>frame = Some 1, inTangent = None, key_value = Number (Some 2),
                       outTangent = None,
                       key_interpolation = Some AnimationKeyInterpolation_STEP\<rparr>,
                      \<lparr>frame = Some 2, inTangent = None, key_value = Number (Some 3),
                       outTangent = None,
                       key_interpolation = Some AnimationKeyInterpolation_STEP\<rparr>]\<rparr>,
           alphaBabylonAnimation = None\<rparr>,
      [\<lparr>sampler_input = 0, sampler_interpolation = Some STEP, sampler_output = 1,
        u_data = Some \<lparr>promise_id = 0,
                       outcome = Inr \<lparr>input = [0, 1, 2], interpolation = STEP,
                                      output' = [1, 2, 3]\<rparr>\<rparr>\<rparr>],
      \<lparr>accessors = [Inr [0, 1, 2], Inr [1, 2, 3]], accessorLoads = [0, 1], promisesCreated = 1\<rparr>,
      \<lparr>group_name = ''walk'',
       targetedAnimations =
         [(\<lparr>name = ''walk_EXT_property_animation_channel0'', targetProperty = ''metallic'',
            framePerSecond = 1, dataType = ANIMATIONTYPE_FLOAT,
            keys = [\<lparr>frame = Some 0, inTangent = None, key_value = Number (Some 1),
                     outTangent = None,
                     key_interpolation = Some AnimationKeyInterpolation_STEP\<rparr>,
                    \<lparr>frame = Some 1, inTangent = None, key_value = Number (Some 2),
                     outTangent = None,
                     key_interpolation = Some AnimationKeyInterpolation_STEP\<rparr>,
                    \<lparr>frame = Some 2, inTangent = None, key_value = Number (Some 3),
                     outTangent = None,
                     key_interpolation = Some AnimationKeyInterpolation_STEP\<rparr>]\<rparr>, 5)]\<rparr>)"
  by (simp add: u_loadAnimationChannelAsync_def ArrayItem_Get_def u_loadAnimationSamplerAsync_def
        interpolation_or_LINEAR_def sampler_outcome_def channel_defs example_registry_def
        ANIMATIONTYPE_defs)

subsection \<open>Track names\<close>

lemma digit_char_is_digit: "d < 10 \<Longrightarrow> digit_char d \<in> set ''0123456789''"
  unfolding digit_char_def by (rule nth_mem) simp

lemma digit_char_inj: "a < 10 \<Longrightarrow> b < 10 \<Longrightarrow> digit_char a = digit_char b \<Longrightarrow> a = b"
proof -
  assume a: "a < 10" and b: "b < 10" and eq: "digit_char a = digit_char b"
  have d: "distinct ''0123456789''"
    by simp
  from a b eq show "a = b"
    unfolding digit_char_def using d by (simp add: nth_eq_iff_index_eq)
qed

lemma string_of_nat_digits: "set (string_of_nat n) \<subseteq> set ''0123456789''"
proof (induction n rule: string_of_nat.induct)
  case (1 n)
  show ?case
  proof (cases "n < 10")
    case True
    then show ?thesis
      using digit_char_is_digit [of n] by (subst string_of_nat.simps) simp
  next
    case False
    have "n mod 10 < 10"
      by simp
    with False "1.IH" digit_char_is_digit [of "n mod 10"] show ?thesis
      by (subst string_of_nat.simps) simp
  qed
qed

lemma string_of_nat_not_Nil: "string_of_nat n \<noteq> []"
  by (subst string_of_nat.simps) simp

lemma string_of_nat_inj: "string_of_nat a = string_of_nat b \<Longrightarrow> a = b"
proof (induction a arbitrary: b rule: string_of_nat.induct)
  case (1 a)
  show ?case
  proof (cases "a < 10")
    case True
    show ?thesis
    proof (cases "b < 10")
      case b: True
      from "1.prems" True b have "digit_char a = digit_char b"
        by (simp add: string_of_nat.simps)
      with True b show ?thesis
        by (rule digit_char_inj)
    next
      case b: False
      from "1.prems" True b have "[digit_char a] = string_of_nat (b div 10) @ [digit_char (b mod 10)]"
        by (simp add: string_of_nat.simps)
      then have "string_of_nat (b div 10) = []"
        by simp
      with string_of_nat_not_Nil show ?thesis
        by blast
    qed
  next
    case False
    show ?thesis
    proof (cases "b < 10")
      case b: True
      from "1.prems" False b have "string_of_nat (a div 10) @ [digit_char (a mod 10)] = [digit_char b]"
        by (simp add: string_of_nat.simps)
      then have "string_of_nat (a div 10) = []"
        by simp
      with string_of_nat_not_Nil show ?thesis
        by blast
    next
      case b: False
      from "1.prems" False b
      have "string_of_nat (a div 10) @ [digit_char (a mod 10)]
              = string_of_nat (b div 10) @ [digit_char (b mod 10)]"
        by (simp add: string_of_nat.simps)
      then have hi: "string_of_nat (a div 10) = string_of_nat (b div 10)"
        and lo: "digit_char (a mod 10) = digit_char (b mod 10)"
        by simp_all
      from "1.IH" [OF False hi] have "a div 10 = b div 10" .
      moreover from lo have "a mod 10 = b mod 10"
        by (intro digit_char_inj) simp_all
      ultimately show ?thesis
        by (metis div_mult_mod_eq)
    qed
  qed
qed

lemma string_of_nat_no_alpha: "string_of_nat a \<noteq> string_of_nat b @ ''_alpha''"
proof
  assume "string_of_nat a = string_of_nat b @ ''_alpha''"
  then have "CHR ''a'' \<in> set (string_of_nat a)"
    by simp
  with string_of_nat_digits [of a] show False
    by auto
qed

lemma position_names_differ:
  assumes "s = [] \<or> s = ''_alpha''" and "t = [] \<or> t = ''_alpha''"
    and "pre @ string_of_nat a @ s = pre @ string_of_nat b @ t"
  shows "a = b"
  using assms string_of_nat_inj [of a b] string_of_nat_no_alpha [of a b]
    string_of_nat_no_alpha [of b a]
  by auto


lemma names_follow_positions_refl: "names_follow_positions grp grp"
  by (auto simp: names_follow_positions_def)

lemma names_follow_positions_attach:
  assumes "names_follow_positions grp0 grp"
    and "name a = animationName grp \<or> name a = animationName grp @ ''_alpha''"
  shows "names_follow_positions grp0 (attach obj a grp)"
proof (cases obj)
  case None
  with assms(1) show ?thesis
    by (simp add: attach_def)
next
  case (Some ob)
  from assms(1) have gn: "group_name grp = group_name grp0"
    and le: "length (targetedAnimations grp0) \<le> length (targetedAnimations grp)"
    and old: "\<And>k. length (targetedAnimations grp0) \<le> k \<Longrightarrow> k < length (targetedAnimations grp) \<Longrightarrow>
             name (fst (targetedAnimations grp ! k))
               = group_name grp0 @ ''_'' @ NAME @ ''_channel'' @ string_of_nat k
           \<or> name (fst (targetedAnimations grp ! k))
               = group_name grp0 @ ''_'' @ NAME @ ''_channel'' @ string_of_nat k @ ''_alpha''"
    by (simp_all add: names_follow_positions_def)
  show ?thesis
    unfolding names_follow_positions_def
  proof (intro conjI allI impI)
    show "group_name (attach obj a grp) = group_name grp0"
      using gn Some by (simp add: attach_def addTargetedAnimation_def)
    show "length (targetedAnimations grp0) \<le> length (targetedAnimations (attach obj a grp))"
      using le Some by (simp add: attach_def addTargetedAnimation_def)
  next
    fix k
    assume k: "length (targetedAnimations grp0) \<le> k
                 \<and> k < length (targetedAnimations (attach obj a grp))"
    show "name (fst (targetedAnimations (attach obj a grp) ! k))
               = group_name grp0 @ ''_'' @ NAME @ ''_channel'' @ string_of_nat k
           \<or> name (fst (targetedAnimations (attach obj a grp) ! k))
               = group_name grp0 @ ''_'' @ NAME @ ''_channel'' @ string_of_nat k @ ''_alpha''"
    proof (cases "k < length (targetedAnimations grp)")
      case True
      with k old [of k] Some show ?thesis
        by (simp add: attach_def addTargetedAnimation_def nth_append)
    next
      case False
      with k Some have "k = length (targetedAnimations grp)"
        by (simp add: attach_def addTargetedAnimation_def)
      with assms(2) gn Some show ?thesis
        by (auto simp: attach_def addTargetedAnimation_def animationName_def)
    qed
  qed
qed

lemma names_follow_positions_channel_tracks:
  assumes "names_follow_positions grp0 grp"
  shows "names_follow_positions grp0
           (fst (channel_tracks tgt data grp :: ('a, 'o) AnimationGroup \<times> ('x error + 'a built_tracks)))"
proof -
  let ?primary = "\<lambda>ks. \<lparr>name = animationName grp, targetProperty = targetPath tgt,
                          framePerSecond = 1, dataType = animationType tgt, keys = ks\<rparr>"
  have one: "names_follow_positions grp0 (attach (object tgt) (?primary ks) grp)" for ks
    using assms by (rule names_follow_positions_attach) simp
  have two: "names_follow_positions grp0
      (attach (object tgt)
         \<lparr>name = animationName (attach (object tgt) (?primary ks) grp) @ ''_alpha'',
          targetProperty = ''alpha'', framePerSecond = 1, dataType = ANIMATIONTYPE_FLOAT,
          keys = aks\<rparr>
         (attach (object tgt) (?primary ks) grp))" for ks aks
    using one [of ks] by (rule names_follow_positions_attach) simp
  show ?thesis
    using assms one two
    by (auto simp: channel_tracks_def Let_def split: sum.splits prod.splits)
qed

lemma names_follow_positions_run:
  "names_follow_positions grp0 (grp :: ('a, 'o) AnimationGroup) \<Longrightarrow>
     names_follow_positions grp0
       (run_callbacks other_props gltf (registry :: ('g, 'x, 'o, 'v) node) animationContext
          callbacks grp)"
proof (induction callbacks arbitrary: grp)
  case Nil
  then show ?case by simp
next
  case (Cons c cs)
  obtain ctx channel data where c: "c = (ctx, channel, data)"
    by (cases c) auto
  have "names_follow_positions grp0
          (fst (on_sampler_data other_props gltf registry ctx animationContext channel data grp
                  :: ('a, 'o) AnimationGroup \<times> ('x error + 'a built_tracks)))"
    using Cons.prems
    by (auto simp: on_sampler_data_def names_follow_positions_channel_tracks split: sum.splits)
  from Cons.IH [OF this] show ?case
    by (simp add: c)
qed

lemma names_follow_positions_distinct:
  assumes "names_follow_positions grp0 grp"
  shows "distinct (map (name \<circ> fst)
                     (drop (length (targetedAnimations grp0)) (targetedAnimations grp)))"
proof -
  let ?n = "length (targetedAnimations grp0)"
  let ?pre = "group_name grp0 @ ''_'' @ NAME @ ''_channel''"
  from assms have le: "?n \<le> length (targetedAnimations grp)"
    and pos: "\<And>k. ?n \<le> k \<Longrightarrow> k < length (targetedAnimations grp) \<Longrightarrow>
        (\<exists>s. (s = [] \<or> s = ''_alpha'')
           \<and> name (fst (targetedAnimations grp ! k)) = ?pre @ string_of_nat k @ s)"
    by (auto simp: names_follow_positions_def)
  show ?thesis
    unfolding distinct_conv_nth
  proof (intro allI impI)
    fix i j
    assume i: "i < length (map (name \<circ> fst) (drop ?n (targetedAnimations grp)))"
      and j: "j < length (map (name \<circ> fst) (drop ?n (targetedAnimations grp)))"
      and ne: "i \<noteq> j"
    from i j le have ik: "?n + i < length (targetedAnimations grp)"
      and jk: "?n + j < length (targetedAnimations grp)"
      by simp_all
    from pos [OF _ ik] obtain s where s: "s = [] \<or> s = ''_alpha''"
      and ni: "name (fst (targetedAnimations grp ! (?n + i))) = ?pre @ string_of_nat (?n + i) @ s"
      by auto
    from pos [OF _ jk] obtain t where t: "t = [] \<or> t = ''_alpha''"
      and nj: "name (fst (targetedAnimations grp ! (?n + j))) = ?pre @ string_of_nat (?n + j) @ t"
      by auto
    show "map (name \<circ> fst) (drop ?n (targetedAnimations grp)) ! i
            \<noteq> map (name \<circ> fst) (drop ?n (targetedAnimations grp)) ! j"
    proof
      assume "map (name \<circ> fst) (drop ?n (targetedAnimations grp)) ! i
                = map (name \<circ> fst) (drop ?n (targetedAnimations grp)) ! j"
      with i j le ni nj have "?pre @ string_of_nat (?n + i) @ s = ?pre @ string_of_nat (?n + j) @ t"
        by simp
      from position_names_differ [OF s t this] ne show False
        by simp
    qed
  qed
qed

text \<open>
  C6, as the spec states it, fails in its last part: the alpha track is named after the
  primary track has been attached, so its counter is one higher than the primary's.
\<close>

theorem alpha_name_not_suffixed:
  "\<exists>primary alpha grp'.
      on_sampler_data (\<lambda>n p. None) () example_registry ''/channels/0'' ''/animations/0''
        \<lparr>channel_sampler = 0, channel_target = ''materials/0/pbrMetallicRoughness/baseColorFactor''\<rparr>
        \<lparr>input = [0, 1], interpolation = LINEAR, output' = [1, 2, 3, 4, 5, 6, 7, 8 :: real]\<rparr>
        \<lparr>group_name = ''walk'', targetedAnimations = []\<rparr>
      = (grp', (Inr \<lparr>babylonAnimation = primary, alphaBabylonAnimation = Some alpha\<rparr>
                  :: unit error + real built_tracks))
    \<and> name primary = ''walk_EXT_property_animation_channel0''
    \<and> name alpha = ''walk_EXT_property_animation_channel1_alpha''
    \<and> name alpha \<noteq> name primary @ ''_alpha''"
  by (simp add: example_color4)

text \<open>
  C6, amended: the primary track of a channel is named by the group's name, the tag and
  the number of tracks the group holds when the callback runs; the alpha track is named
  in the same way after the primary track was attached or not, with the suffix
  \<^verbatim>\<open>_alpha\<close>: its counter is the primary's when the descriptor holds no object, and one
  more when it holds one. The tracks that any sequence of callbacks attaches to a group
  have pairwise distinct names.
\<close>

theorem track_names:
  assumes "u_getAnimationObject other_props gltf registry context animationContext
             (channel_target channel) = Inr tgt"
    and "on_sampler_data other_props gltf registry context animationContext channel data grp
             = (grp', (Inr tracks :: 'x error + 'a built_tracks))"
  shows "name (babylonAnimation tracks)
           = group_name grp @ ''_'' @ NAME @ ''_channel''
               @ string_of_nat (length (targetedAnimations grp))
       \<and> (\<forall>alpha. alphaBabylonAnimation tracks = Some alpha \<longrightarrow>
             name alpha
               = group_name grp @ ''_'' @ NAME @ ''_channel''
                   @ string_of_nat (length (targetedAnimations grp)
                                      + (case object tgt of None \<Rightarrow> 0 | Some obj \<Rightarrow> 1))
                   @ ''_alpha'')
       \<and> distinct (map (name \<circ> fst)
            (drop (length (targetedAnimations grp_start))
               (targetedAnimations
                  (run_callbacks other_props gltf registry animationContext callbacks grp_start))))"
proof (intro conjI)
  from assms have tr: "channel_tracks tgt data grp = (grp', (Inr tracks :: 'x error + 'a built_tracks))"
    by (simp add: on_sampler_data_def)
  then show "name (babylonAnimation tracks)
           = group_name grp @ ''_'' @ NAME @ ''_channel''
               @ string_of_nat (length (targetedAnimations grp))"
    by (auto simp: channel_tracks_def Let_def animationName_def
             split: sum.splits prod.splits if_splits)
  from tr show "\<forall>alpha. alphaBabylonAnimation tracks = Some alpha \<longrightarrow>
             name alpha
               = group_name grp @ ''_'' @ NAME @ ''_channel''
                   @ string_of_nat (length (targetedAnimations grp)
                                      + (case object tgt of None \<Rightarrow> 0 | Some obj \<Rightarrow> 1))
                   @ ''_alpha''"
    by (auto simp: channel_tracks_def Let_def animationName_def attach_def addTargetedAnimation_def
             split: sum.splits prod.splits if_splits option.splits)
  show "distinct (map (name \<circ> fst)
            (drop (length (targetedAnimations grp_start))
               (targetedAnimations
                  (run_callbacks other_props gltf registry animationContext callbacks grp_start))))"
    by (rule names_follow_positions_distinct, rule names_follow_positions_run,
        rule names_follow_positions_refl)
qed

lemma example_two_channels:
  "map (name \<circ> fst)
     (targetedAnimations
        (run_callbacks (\<lambda>n p. None) () example_registry ''/animations/0''
           [(''/channels/0'',
             \<lparr>channel_sampler = 0,
              channel_target = ''materials/0/pbrMetallicRoughness/baseColorFactor''\<rparr>,
             \<lparr>input = [0], interpolation = LINEAR, output' = [1, 2, 3, 4 :: real]\<rparr>),
            (''/channels/1'',
             \<lparr>channel_sampler = 0,
              channel_target = ''materials/0/pbrMetallicRoughness/metallicFactor''\<rparr>,
             \<lparr>input = [0], interpolation = LINEAR, output' = [1, 2, 3, 4 :: real]\<rparr>)]
           \<lparr>group_name = ''walk'', targetedAnimations = []\<rparr>))
   = [''walk_EXT_property_animation_channel0'', ''walk_EXT_property_animation_channel1_alpha'',
      ''walk_EXT_property_animation_channel2'']"
  by (simp add: channel_defs example_registry_def ANIMATIONTYPE_defs LINEAR_def STEP_def)

theorem track_names_witness:
  "\<exists>primary alpha grp'.
      on_sampler_data (\<lambda>n p. None) () example_registry ''/channels/0'' ''/animations/0''
        \<lparr>channel_sampler = 0, channel_target = ''materials/0/pbrMetallicRoughness/baseColorFactor''\<rparr>
        \<lparr>input = [0, 1], interpolation = LINEAR, output' = [1, 2, 3, 4, 5, 6, 7, 8 :: real]\<rparr>
        \<lparr>group_name = ''walk'', targetedAnimations = []\<rparr>
      = (grp', (Inr \<lparr>babylonAnimation = primary, alphaBabylonAnimation = Some alpha\<rparr>
                  :: unit error + real built_tracks))
    \<and> name primary = ''walk'' @ ''_'' @ NAME @ ''_channel'' @ string_of_nat 0
    \<and> name alpha = ''walk'' @ ''_'' @ NAME @ ''_channel'' @ string_of_nat 1 @ ''_alpha''
    \<and> distinct (map (name \<circ> fst)
         (targetedAnimations
            (run_callbacks (\<lambda>n p. None) () example_registry ''/animations/0''
               [(''/channels/0'',
                 \<lparr>channel_sampler = 0,
                  channel_target = ''materials/0/pbrMetallicRoughness/baseColorFactor''\<rparr>,
                 \<lparr>input = [0], interpolation = LINEAR, output' = [1, 2, 3, 4 :: real]\<rparr>),
                (''/channels/1'',
                 \<lparr>channel_sampler = 0,
                  channel_target = ''materials/0/pbrMetallicRoughness/metallicFactor''\<rparr>,
                 \<lparr>input = [0], interpolation = LINEAR, output' = [1, 2, 3, 4 :: real]\<rparr>)]
               \<lparr>group_name = ''walk'', targetedAnimations = []\<rparr>)))"
  using track_names [OF _ example_color4,
      where tgt = "\<lparr>targetPath = ''albedoColor'', animationType = ANIMATIONTYPE_COLOR4,
                    object = Some 5\<rparr>"
        and grp_start = "\<lparr>group_name = ''walk'', targetedAnimations = []\<rparr>"
        and callbacks =
         "[(''/channels/0'',
             \<lparr>channel_sampler = 0,
              channel_target = ''materials/0/pbrMetallicRoughness/baseColorFactor''\<rparr>,
             \<lparr>input = [0], interpolation = LINEAR, output' = [1, 2, 3, 4 :: real]\<rparr>),
            (''/channels/1'',
             \<lparr>channel_sampler = 0,
              channel_target = ''materials/0/pbrMetallicRoughness/metallicFactor''\<rparr>,
             \<lparr>input = [0], interpolation = LINEAR, output' = [1, 2, 3, 4 :: real]\<rparr>)]"]
  by (simp add: example_resolve example_color4 example_two_channels NAME_def
        string_of_nat.simps digit_char_def)

end
